theory Spec2Isabelle
  imports Complex_Main
begin

section \<open>The fast\_align pipeline (src/pipelines/aligners/fast\_align\_pipeline.py)\<close>

text \<open>
  A shallow embedding of class \<open>FastAlignPipeline\<close>. Python exceptions are values of
  \<open>py_error\<close> on the left of a sum; the loops over lines, tokens, sentence pairs and
  batches are recursive functions that carry the loop variables of the source.

  A Python \<open>str\<close> is a \<open>string\<close>; a \<open>char\<close> stands for a code point below 256.
  This covers the whole alignment grammar (digits, \<open>-\<close>, white space). Code points
  from 256 on (among them the decimal digits and the white space of other scripts, which
  \<open>int\<close>, \<open>strip\<close> and \<open>split\<close> accept as well) are outside the model.
\<close>

subsection \<open>Exceptions\<close>

datatype py_error =
    ValueError    \<comment> \<open>unpacking a split of the wrong length, \<open>int\<close> of a non-number\<close>
  | IndexError    \<comment> \<open>list index out of range\<close>
  | OSError       \<comment> \<open>the process could not be launched (FileNotFoundError, PermissionError, ...)\<close>

subsection \<open>The string built-ins the parser uses\<close>

text \<open>\<open>str.isspace\<close> on one character, for code points below 256.\<close>

definition py_isspace :: "char \<Rightarrow> bool" where
  "py_isspace c =
     (let n = of_char c :: nat
      in (9 \<le> n \<and> n \<le> 13) \<or> (28 \<le> n \<and> n \<le> 32) \<or> n = 133 \<or> n = 160)"

definition py_isdigit :: "char \<Rightarrow> bool" where
  "py_isdigit c = (let n = of_char c :: nat in 48 \<le> n \<and> n \<le> 57)"

definition digit_value :: "char \<Rightarrow> int" where
  "digit_value c = int (of_char c) - 48"

text \<open>\<open>s.strip()\<close>: white space removed at both ends.\<close>

definition py_strip :: "string \<Rightarrow> string" where
  "py_strip s = rev (dropWhile py_isspace (rev (dropWhile py_isspace s)))"

text \<open>
  \<open>s.split()\<close>: the maximal runs of characters that are not white space, in order;
  no empty string is produced. \<open>cur\<close> is the run being read.
\<close>

fun split_ws :: "string \<Rightarrow> string \<Rightarrow> string list" where
  "split_ws cur [] = (if cur = [] then [] else [cur])"
| "split_ws cur (c # cs) =
     (if py_isspace c then (if cur = [] then split_ws [] cs else cur # split_ws [] cs)
      else split_ws (cur @ [c]) cs)"

definition py_split :: "string \<Rightarrow> string list" where
  "py_split s = split_ws [] s"

text \<open>
  \<open>s.split(sep)\<close> for a separator of one character: every occurrence of \<open>sep\<close> cuts,
  empty pieces are kept, and the result always has one piece more than there are
  separators.
\<close>

fun split_sep :: "char \<Rightarrow> string \<Rightarrow> string \<Rightarrow> string list" where
  "split_sep sep cur [] = [cur]"
| "split_sep sep cur (c # cs) =
     (if c = sep then cur # split_sep sep [] cs else split_sep sep (cur @ [c]) cs)"

definition py_split_on :: "char \<Rightarrow> string \<Rightarrow> string list" where
  "py_split_on sep s = split_sep sep [] s"

text \<open>
  \<open>int(s)\<close> for a string, base 10. CPython strips white space at both ends, reads one
  optional sign, then wants digits in which single underscores may stand between two
  digits; anything else is a ValueError (\<open>None\<close> here). Since CPython 3.11 (and the
  security releases of the older branches) a string of more than
  \<open>int_max_str_digits\<close> digits is a ValueError too; underscores and the sign are
  not counted.
\<close>

definition int_max_str_digits :: nat where
  "int_max_str_digits = 4300"

fun scan_digits :: "char \<Rightarrow> string \<Rightarrow> bool" where
  "scan_digits prev [] = (prev \<noteq> CHR ''_'')"
| "scan_digits prev (c # cs) =
     (if c = CHR ''_'' then prev \<noteq> CHR ''_'' \<and> scan_digits c cs
      else if py_isdigit c then scan_digits c cs
      else False)"

definition digits_ok :: "string \<Rightarrow> bool" where
  "digits_ok body =
     (case body of [] \<Rightarrow> False
      | c # cs \<Rightarrow> c \<noteq> CHR ''_'' \<and> scan_digits c (c # cs))"

definition decimal_value :: "string \<Rightarrow> int" where
  "decimal_value ds = foldl (\<lambda>acc c. 10 * acc + digit_value c) 0 ds"

definition py_int :: "string \<Rightarrow> int option" where
  "py_int s =
     (let t = py_strip s;
          (neg, body) = (case t of
                           [] \<Rightarrow> (False, [])
                         | c # cs \<Rightarrow> if c = CHR ''+'' then (False, cs)
                                    else if c = CHR ''-'' then (True, cs)
                                    else (False, t));
          ds = filter py_isdigit body
      in if \<not> digits_ok body then None
         else if length ds > int_max_str_digits then None
         else Some (if neg then - decimal_value ds else decimal_value ds))"

subsection \<open>parse\_alignment\_output\<close>

text \<open>
  The argument is the sequence of lines that iterating over the open file yields (each
  with its line end, if it has one).

  \<open>parse_pair\<close> is the body of the inner loop: \<open>src, tgt = pair.split('-')\<close> raises
  ValueError unless the split has exactly two pieces, and each \<open>int\<close> may raise it.
\<close>

definition parse_pair :: "string \<Rightarrow> py_error + (int \<times> int)" where
  "parse_pair pair =
     (case py_split_on (CHR ''-'') pair of
        [src, tgt] \<Rightarrow>
          (case py_int src of
             None \<Rightarrow> Inl ValueError
           | Some s \<Rightarrow>
               (case py_int tgt of
                  None \<Rightarrow> Inl ValueError
                | Some t \<Rightarrow> Inr (s, t)))
      | _ \<Rightarrow> Inl ValueError)"

fun parse_pairs :: "(int \<times> int) list \<Rightarrow> string list \<Rightarrow> py_error + (int \<times> int) list" where
  "parse_pairs pairs [] = Inr pairs"
| "parse_pairs pairs (pair # rest) =
     (case parse_pair pair of
        Inl e \<Rightarrow> Inl e
      | Inr p \<Rightarrow> parse_pairs (pairs @ [p]) rest)"

text \<open>One iteration of the loop over the lines: the entry the line appends, or the exception.\<close>

definition parse_line :: "string \<Rightarrow> py_error + (int \<times> int) list" where
  "parse_line line0 =
     (let line = py_strip line0
      in if line = [] then Inr []
         else parse_pairs [] (py_split line))"

fun parse_lines ::
  "(int \<times> int) list list \<Rightarrow> string list \<Rightarrow> py_error + (int \<times> int) list list" where
  "parse_lines alignments [] = Inr alignments"
| "parse_lines alignments (line # rest) =
     (case parse_line line of
        Inl e \<Rightarrow> Inl e
      | Inr pairs \<Rightarrow> parse_lines (alignments @ [pairs]) rest)"

definition parse_alignment_output :: "string list \<Rightarrow> py_error + (int \<times> int) list list" where
  "parse_alignment_output file_lines = parse_lines [] file_lines"

text \<open>
  The output grammar of the aligner: a token is \<open><digits>-<digits>\<close>, each index with at
  least one and at most \<open>int_max_str_digits\<close> digits.
\<close>

definition is_index :: "string \<Rightarrow> bool" where
  "is_index ds = (ds \<noteq> [] \<and> list_all py_isdigit ds \<and> length ds \<le> int_max_str_digits)"

definition is_alignment_token :: "string \<Rightarrow> bool" where
  "is_alignment_token tok =
     (let a = takeWhile py_isdigit tok; r = dropWhile py_isdigit tok
      in is_index a \<and> (case r of [] \<Rightarrow> False | c # b \<Rightarrow> c = CHR ''-'' \<and> is_index b))"

definition well_formed_line :: "string \<Rightarrow> bool" where
  "well_formed_line line = list_all is_alignment_token (py_split (py_strip line))"

definition blank_line :: "string \<Rightarrow> bool" where
  "blank_line line = list_all py_isspace line"

text \<open>
  What the grammar says a token and a line stand for: the two indices of a token, and the
  index pairs of a line in token order.
\<close>

definition token_pair :: "string \<Rightarrow> int \<times> int" where
  "token_pair tok =
     (decimal_value (takeWhile py_isdigit tok), decimal_value (tl (dropWhile py_isdigit tok)))"

definition line_pairs :: "string \<Rightarrow> (int \<times> int) list" where
  "line_pairs line = map token_pair (py_split (py_strip line))"

text \<open>
  The three ways of the source to be malformed: no separator, more than one separator, a
  piece that \<open>int\<close> rejects.
\<close>

definition malformed_token :: "string \<Rightarrow> bool" where
  "malformed_token tok =
     (count_list tok (CHR ''-'') = 0
      \<or> 1 < count_list tok (CHR ''-'')
      \<or> list_ex (\<lambda>piece. py_int piece = None) (py_split_on (CHR ''-'') tok))"

subsection \<open>calculate\_alignment\_score\<close>

text \<open>
  The score is a Python \<open>float\<close>. The model computes with exact rationals: the literals
  \<open>0.5\<close>, \<open>0.3\<close>, \<open>0.2\<close>, \<open>2.0\<close> are the decimal fractions they denote, \<open>/\<close> is exact
  division, and \<open>round(score, 4)\<close> is the nearest multiple of \<open>1/10000\<close> with ties to
  the even one. The rounding error of binary floating point (at most a few units in the
  16th significant digit) is not modelled. Where the exact score lies on a tie between two
  multiples of \<open>1/10000\<close>, or closer to one than that error, the source can round to
  the other neighbour: for the alignment \<open>[(0,0)]\<close> with 8 and 2 tokens the exact score
  is \<open>0.13125\<close> and the model gives \<open>0.1312\<close>, the source \<open>0.1313\<close>. The inputs at
  which the properties below evaluate the score (\<open>1.5\<close>, \<open>0.85\<close>, \<open>0.7833\<close>) are not of
  this kind, and the comparison of a rounded score \<open>k/10000\<close> with \<open>0.7\<close> comes out
  the same in both arithmetics (it is \<open>7000 \<le> k\<close>).
\<close>

definition round_half_even :: "rat \<Rightarrow> int" where
  "round_half_even x =
     (let f = \<lfloor>x\<rfloor>; d = x - of_int f
      in if d < 1 / 2 then f
         else if 1 / 2 < d then f + 1
         else if even f then f else f + 1)"

definition py_round :: "rat \<Rightarrow> nat \<Rightarrow> rat" where
  "py_round x ndigits = of_int (round_half_even (x * 10 ^ ndigits)) / 10 ^ ndigits"

definition calculate_alignment_score :: "(int \<times> int) list \<Rightarrow> int \<Rightarrow> int \<Rightarrow> rat" where
  "calculate_alignment_score alignments src_length tgt_length =
     (if alignments = [] \<or> src_length = 0 \<or> tgt_length = 0 then 0
      else
        let aligned_src = length (remdups (map fst alignments));
            coverage = of_nat aligned_src / of_int src_length;
            density = of_nat (length alignments) / of_int src_length;
            density_score = min density 2 / 2;
            length_ratio = of_int (min src_length tgt_length) / of_int (max src_length tgt_length);
            score = (5 / 10) * coverage + (3 / 10) * density_score + (2 / 10) * length_ratio
        in py_round score 4)"

subsection \<open>store\_alignments\<close>

record sentence_pair =
  purepecha_sentence_id :: nat
  spanish_sentence_id :: nat
  purepecha_text :: string
  spanish_text :: string

record forward_entry =
  src_idx :: int
  tgt_idx :: int
  src_token :: string
  tgt_token :: string

record alignment_record =
  rec_purepecha_sentence_id :: nat
  rec_spanish_sentence_id :: nat
  alignment_method :: string
  alignment_score :: rat
  forward :: "forward_entry list"
  backward :: "(int \<times> int) list"  \<comment> \<open>(src\_idx, tgt\_idx)\<close>
  quality_status :: string

text \<open>
  What the pipeline does to the world, in the order it does it: the calls on the storage
  and on the run tracker, the launches of the aligner and the lines of the error log.
  \<open>InsertAlignment\<close> is an insertion that went through; an insertion that raised left
  no record.
\<close>

datatype event =
    StartRun int                      \<comment> \<open>\<open>tracker.start_run\<close>, with the batch size of the configuration\<close>
  | GetUnalignedPairs int             \<comment> \<open>\<open>db.get_unaligned_sentence_pairs(limit)\<close>\<close>
  | RunFastAlign bool                 \<comment> \<open>one launch of the aligner; the flag is \<open>reverse\<close>\<close>
  | LogError string                   \<comment> \<open>\<open>logger.error\<close>\<close>
  | InsertAlignment alignment_record  \<comment> \<open>\<open>db.insert_alignment\<close> returned\<close>
  | UpdateProgress int int int        \<comment> \<open>\<open>tracker.update_progress\<close>: processed, succeeded, failed\<close>
  | CompleteRun string                \<comment> \<open>\<open>tracker.complete_run(status)\<close>\<close>

text \<open>\<open>xs[i]\<close>: an index below zero counts from the end, and out of range is an IndexError.\<close>

definition py_index :: "'a list \<Rightarrow> int \<Rightarrow> py_error + 'a" where
  "py_index xs i =
     (if 0 \<le> i \<and> i < int (length xs) then Inr (xs ! nat i)
      else if i < 0 \<and> - int (length xs) \<le> i then Inr (xs ! nat (int (length xs) + i))
      else Inl IndexError)"

text \<open>
  The comprehension that builds \<open>word_alignments['forward']\<close>: an entry passes the
  filter when both indices are below the token counts, and is then annotated with the two
  tokens.
\<close>

fun forward_entries ::
  "string list \<Rightarrow> string list \<Rightarrow> (int \<times> int) list \<Rightarrow> py_error + forward_entry list" where
  "forward_entries src_tokens tgt_tokens [] = Inr []"
| "forward_entries src_tokens tgt_tokens ((src, tgt) # rest) =
     (if src < int (length src_tokens) \<and> tgt < int (length tgt_tokens) then
        (case py_index src_tokens src of
           Inl e \<Rightarrow> Inl e
         | Inr st \<Rightarrow>
             (case py_index tgt_tokens tgt of
                Inl e \<Rightarrow> Inl e
              | Inr tt \<Rightarrow>
                  (case forward_entries src_tokens tgt_tokens rest of
                     Inl e \<Rightarrow> Inl e
                   | Inr entries \<Rightarrow>
                       Inr (\<lparr>src_idx = src, tgt_idx = tgt, src_token = st, tgt_token = tt\<rparr>
                            # entries))))
      else forward_entries src_tokens tgt_tokens rest)"

text \<open>
  The \<open>try\<close> block of the loop up to the call of \<open>db.insert_alignment\<close>: the
  arguments of that call, or the exception raised before it.
\<close>

definition build_alignment ::
  "sentence_pair \<Rightarrow> (int \<times> int) list \<Rightarrow> (int \<times> int) list \<Rightarrow> py_error + alignment_record" where
  "build_alignment pair fwd_align bwd_align =
     (let src_tokens = py_split (purepecha_text pair);
          tgt_tokens = py_split (spanish_text pair);
          score = calculate_alignment_score fwd_align
                    (int (length src_tokens)) (int (length tgt_tokens))
      in case forward_entries src_tokens tgt_tokens fwd_align of
           Inl e \<Rightarrow> Inl e
         | Inr fwd \<Rightarrow>
             Inr \<lparr>rec_purepecha_sentence_id = purepecha_sentence_id pair,
                  rec_spanish_sentence_id = spanish_sentence_id pair,
                  alignment_method = ''fast_align'',
                  alignment_score = score,
                  forward = fwd,
                  backward = map (\<lambda>(tgt, src). (src, tgt)) bwd_align,
                  quality_status = (if 7 / 10 \<le> score then ''auto_aligned'' else ''raw'')\<rparr>)"

text \<open>
  The loop over \<open>zip(sentence_pairs, forward_alignments, backward_alignments)\<close>.
  \<open>insert_raises k\<close> says whether the storage raises on the insertion for position
  \<open>k\<close> of the batch (the storage is not part of this file). \<open>successful\<close> and
  \<open>failed\<close> are the counters of the source.
\<close>

fun store_loop ::
  "(nat \<Rightarrow> bool) \<Rightarrow> nat \<Rightarrow> (sentence_pair \<times> (int \<times> int) list \<times> (int \<times> int) list) list
   \<Rightarrow> int \<Rightarrow> int \<Rightarrow> event list \<times> int \<times> int" where
  "store_loop insert_raises k [] successful failed = ([], successful, failed)"
| "store_loop insert_raises k ((pair, fwd_align, bwd_align) # rest) successful failed =
     (case build_alignment pair fwd_align bwd_align of
        Inl e \<Rightarrow>
          (let (evs, s, f) = store_loop insert_raises (Suc k) rest successful (failed + 1)
           in (LogError ''Failed to store alignment'' # evs, s, f))
      | Inr r \<Rightarrow>
          if insert_raises k then
            (let (evs, s, f) = store_loop insert_raises (Suc k) rest successful (failed + 1)
             in (LogError ''Failed to store alignment'' # evs, s, f))
          else
            (let (evs, s, f) = store_loop insert_raises (Suc k) rest (successful + 1) failed
             in (InsertAlignment r # evs, s, f)))"

definition store_alignments ::
  "(nat \<Rightarrow> bool) \<Rightarrow> sentence_pair list \<Rightarrow> (int \<times> int) list list \<Rightarrow> (int \<times> int) list list
   \<Rightarrow> event list \<times> int \<times> int" where
  "store_alignments insert_raises sentence_pairs forward_alignments backward_alignments =
     store_loop insert_raises 0
       (zip sentence_pairs (zip forward_alignments backward_alignments)) 0 0"

subsection \<open>run\_fast\_align\<close>

text \<open>
  What \<open>subprocess.run\<close> meets: the process ran and exited with a status, having
  written its standard output (here already cut into lines) and its error stream; or it
  could not be started, which \<open>subprocess.run\<close> reports with an OSError
  (FileNotFoundError when there is no such binary).
\<close>

datatype proc_result =
    Exited int "string list" string   \<comment> \<open>return code, standard output, error stream\<close>
  | LaunchFailed

text \<open>The content of \<open>output_file\<close> after the call: it is opened for writing first.\<close>

definition output_file_lines :: "proc_result \<Rightarrow> string list" where
  "output_file_lines proc = (case proc of Exited rc out err \<Rightarrow> out | LaunchFailed \<Rightarrow> [])"

text \<open>
  \<open>check=True\<close> turns every return code other than zero into CalledProcessError, the
  one exception the function catches.
\<close>

definition run_fast_align :: "bool \<Rightarrow> proc_result \<Rightarrow> event list \<times> (py_error + bool)" where
  "run_fast_align reverse proc =
     (case proc of
        LaunchFailed \<Rightarrow> ([RunFastAlign reverse], Inl OSError)
      | Exited rc out err \<Rightarrow>
          if rc = 0 then ([RunFastAlign reverse], Inr True)
          else ([RunFastAlign reverse, LogError (''fast_align failed: '' @ err)], Inr False))"

subsection \<open>run\_pipeline\<close>

text \<open>
  What the world answers during one iteration of the batch loop: the pairs the storage
  returns, what happens to the two launches of the aligner, and on which insertions the
  storage raises. A run is driven by the list of these answers, one for each iteration
  that reaches the storage.
\<close>

record batch_env =
  unaligned_pairs :: "sentence_pair list"
  forward_proc :: proc_result
  backward_proc :: proc_result
  insert_raises :: "nat \<Rightarrow> bool"

record loop_state =
  batch_num :: int
  total_aligned :: int
  total_failed :: int

datatype step = Continue loop_state | Break loop_state | Raise py_error

text \<open>\<open>if max_batches and batch_num >= max_batches\<close>: \<open>None\<close> and \<open>0\<close> are both false.\<close>

definition reached_max :: "int option \<Rightarrow> loop_state \<Rightarrow> bool" where
  "reached_max max_batches st =
     (case max_batches of None \<Rightarrow> False | Some m \<Rightarrow> m \<noteq> 0 \<and> m \<le> batch_num st)"

text \<open>The body of the \<open>while\<close> loop from \<open>batch_num += 1\<close> on.\<close>

definition loop_body :: "int \<Rightarrow> batch_env \<Rightarrow> loop_state \<Rightarrow> event list \<times> step" where
  "loop_body batch_size env st0 =
     (let st = st0\<lparr>batch_num := batch_num st0 + 1\<rparr>;
          sentence_pairs = unaligned_pairs env;
          fetch = [GetUnalignedPairs batch_size]
      in if sentence_pairs = [] then (fetch, Break st)
         else
           case run_fast_align False (forward_proc env) of
             (ev1, Inl e) \<Rightarrow> (fetch @ ev1, Raise e)
           | (ev1, Inr False) \<Rightarrow>
               (fetch @ ev1 @ [LogError ''Forward alignment failed''],
                Continue (st\<lparr>total_failed := total_failed st + int (length sentence_pairs)\<rparr>))
           | (ev1, Inr True) \<Rightarrow>
               (case run_fast_align True (backward_proc env) of
                  (ev2, Inl e) \<Rightarrow> (fetch @ ev1 @ ev2, Raise e)
                | (ev2, Inr False) \<Rightarrow>
                    (fetch @ ev1 @ ev2 @ [LogError ''Backward alignment failed''],
                     Continue (st\<lparr>total_failed := total_failed st + int (length sentence_pairs)\<rparr>))
                | (ev2, Inr True) \<Rightarrow>
                    (case parse_alignment_output (output_file_lines (forward_proc env)) of
                       Inl e \<Rightarrow> (fetch @ ev1 @ ev2, Raise e)
                     | Inr forward_alignments \<Rightarrow>
                         (case parse_alignment_output (output_file_lines (backward_proc env)) of
                            Inl e \<Rightarrow> (fetch @ ev1 @ ev2, Raise e)
                          | Inr backward_alignments \<Rightarrow>
                              (let (ev3, successful, failed) =
                                     store_alignments (insert_raises env) sentence_pairs
                                       forward_alignments backward_alignments;
                                   st' = st\<lparr>total_aligned := total_aligned st + successful,
                                            total_failed := total_failed st + failed\<rparr>
                               in (fetch @ ev1 @ ev2 @ ev3 @
                                   [UpdateProgress (total_aligned st' + total_failed st')
                                      (total_aligned st') (total_failed st')],
                                   Continue st'))))))"

text \<open>
  The loop. It need not end (the storage may hand out the same pairs for ever), so the
  list of answers bounds it: \<open>Pending\<close> is a loop that is still running when the
  answers are used up.
\<close>

datatype loop_exit = LoopExit loop_state | LoopRaised py_error | Pending loop_state

fun run_loop ::
  "int \<Rightarrow> int option \<Rightarrow> batch_env list \<Rightarrow> loop_state \<Rightarrow> event list \<times> loop_exit" where
  "run_loop batch_size max_batches [] st =
     (if reached_max max_batches st then ([], LoopExit st) else ([], Pending st))"
| "run_loop batch_size max_batches (env # world) st =
     (if reached_max max_batches st then ([], LoopExit st)
      else
        case loop_body batch_size env st of
          (evs, Break st') \<Rightarrow> (evs, LoopExit st')
        | (evs, Raise e) \<Rightarrow> (evs, LoopRaised e)
        | (evs, Continue st') \<Rightarrow>
            (let (evs', ex) = run_loop batch_size max_batches world st'
             in (evs @ evs', ex)))"

datatype run_outcome =
    Returned loop_state   \<comment> \<open>\<open>run_pipeline\<close> returned; the final counters\<close>
  | Aborted py_error      \<comment> \<open>an exception left \<open>run_pipeline\<close>\<close>
  | Running loop_state    \<comment> \<open>the answers are used up and the loop has not ended\<close>

definition run_pipeline ::
  "int \<Rightarrow> int option \<Rightarrow> batch_env list \<Rightarrow> event list \<times> run_outcome" where
  "run_pipeline batch_size max_batches world =
     (case run_loop batch_size max_batches world
             \<lparr>batch_num = 0, total_aligned = 0, total_failed = 0\<rparr> of
        (evs, LoopExit st) \<Rightarrow>
          (StartRun batch_size # evs @ [CompleteRun ''completed''], Returned st)
      | (evs, LoopRaised e) \<Rightarrow> (StartRun batch_size # evs, Aborted e)
      | (evs, Pending st) \<Rightarrow> (StartRun batch_size # evs, Running st))"

subsection \<open>The run tracker, as seen from the events\<close>

text \<open>
  Modelled from the spec: \<open>PipelineRunTracker\<close> (utils/database.py) is not among the
  sources. Its progress update overwrites the cumulative counts with the totals it is
  given; a run that has not been updated yet has processed nothing.
\<close>

fun tracker_succeeded :: "int \<Rightarrow> event list \<Rightarrow> int" where
  "tracker_succeeded cur [] = cur"
| "tracker_succeeded cur (UpdateProgress p s f # evs) = tracker_succeeded s evs"
| "tracker_succeeded cur (e # evs) = tracker_succeeded cur evs"

definition items_succeeded :: "event list \<Rightarrow> int" where
  "items_succeeded evs = tracker_succeeded 0 evs"

fun is_insert :: "event \<Rightarrow> bool" where
  "is_insert (InsertAlignment r) = True"
| "is_insert e = False"

fun is_update :: "event \<Rightarrow> bool" where
  "is_update (UpdateProgress p s f) = True"
| "is_update e = False"

definition records_inserted :: "event list \<Rightarrow> int" where
  "records_inserted evs = int (length (filter is_insert evs))"

fun is_complete :: "event \<Rightarrow> bool" where
  "is_complete (CompleteRun status) = True"
| "is_complete e = False"

text \<open>
  The tracker lags behind the storage: read from left to right with \<open>i\<close> records
  inserted and \<open>t\<close> recorded as succeeded so far, \<open>t\<close> never exceeds \<open>i\<close>, and every
  progress update reports exactly \<open>i\<close>.
\<close>

fun lagging :: "int \<Rightarrow> int \<Rightarrow> event list \<Rightarrow> bool" where
  "lagging i t [] = (t \<le> i)"
| "lagging i t (InsertAlignment r # evs) = (t \<le> i \<and> lagging (i + 1) t evs)"
| "lagging i t (UpdateProgress p s f # evs) = (t \<le> i \<and> s = i \<and> lagging i s evs)"
| "lagging i t (e # evs) = (t \<le> i \<and> lagging i t evs)"

text \<open>Events that touch neither the stored records nor the tracker's counts and status.\<close>

definition quiet :: "event list \<Rightarrow> bool" where
  "quiet evs = list_all (\<lambda>e. \<not> is_insert e \<and> \<not> is_update e \<and> \<not> is_complete e) evs"

text \<open>Both launches of the aligner for a batch return \<open>True\<close>.\<close>

definition invocations_succeed :: "batch_env \<Rightarrow> bool" where
  "invocations_succeed env =
     (snd (run_fast_align False (forward_proc env)) = Inr True
      \<and> snd (run_fast_align True (backward_proc env)) = Inr True)"

text \<open>An output file in which some token of some line is malformed.\<close>

definition has_malformed_token :: "string list \<Rightarrow> bool" where
  "has_malformed_token file_lines =
     list_ex (\<lambda>line. list_ex malformed_token (py_split (py_strip line))) file_lines"

text \<open>The filter of the comprehension for \<open>word_alignments['forward']\<close>.\<close>

definition in_range :: "string list \<Rightarrow> string list \<Rightarrow> int \<times> int \<Rightarrow> bool" where
  "in_range src_tokens tgt_tokens =
     (\<lambda>(src, tgt). src < int (length src_tokens) \<and> tgt < int (length tgt_tokens))"

subsection \<open>Sample inputs\<close>

definition pair_a :: sentence_pair where
  "pair_a = \<lparr>purepecha_sentence_id = 1, spanish_sentence_id = 2,
             purepecha_text = ''a'', spanish_text = ''x''\<rparr>"

definition pair_abc :: sentence_pair where
  "pair_abc = \<lparr>purepecha_sentence_id = 3, spanish_sentence_id = 4,
               purepecha_text = ''a b c'', spanish_text = ''x y''\<rparr>"

definition env_ok :: batch_env where
  "env_ok = \<lparr>unaligned_pairs = [pair_a], forward_proc = Exited 0 [''0-0''] [],
             backward_proc = Exited 0 [''0-0''] [], insert_raises = (\<lambda>k. False)\<rparr>"

definition env_backward_fails :: batch_env where
  "env_backward_fails =
     \<lparr>unaligned_pairs = [pair_a], forward_proc = Exited 0 [''0-0''] [],
      backward_proc = Exited 1 [] ''boom'', insert_raises = (\<lambda>k. False)\<rparr>"

definition env_malformed :: batch_env where
  "env_malformed =
     \<lparr>unaligned_pairs = [pair_a], forward_proc = Exited 0 [''0-x''] [],
      backward_proc = Exited 0 [''0-0''] [], insert_raises = (\<lambda>k. False)\<rparr>"

definition env_exhausted :: batch_env where
  "env_exhausted = \<lparr>unaligned_pairs = [], forward_proc = LaunchFailed,
                    backward_proc = LaunchFailed, insert_raises = (\<lambda>k. False)\<rparr>"

definition record_a :: alignment_record where
  "record_a = \<lparr>rec_purepecha_sentence_id = 1, rec_spanish_sentence_id = 2,
               alignment_method = ''fast_align'', alignment_score = 17 / 20,
               forward = [\<lparr>src_idx = 0, tgt_idx = 0, src_token = ''a'', tgt_token = ''x''\<rparr>],
               backward = [(0, 0)], quality_status = ''auto_aligned''\<rparr>"

definition record_out_of_range :: alignment_record where
  "record_out_of_range =
     \<lparr>rec_purepecha_sentence_id = 1, rec_spanish_sentence_id = 2,
      alignment_method = ''fast_align'', alignment_score = 17 / 20,
      forward = [], backward = [], quality_status = ''auto_aligned''\<rparr>"

definition record_over_one :: alignment_record where
  "record_over_one =
     \<lparr>rec_purepecha_sentence_id = 1, rec_spanish_sentence_id = 2,
      alignment_method = ''fast_align'', alignment_score = 3 / 2,
      forward = [\<lparr>src_idx = 0, tgt_idx = 0, src_token = ''a'', tgt_token = ''x''\<rparr>],
      backward = [], quality_status = ''auto_aligned''\<rparr>"

section \<open>Properties\<close>

subsection \<open>The parser\<close>

lemma digit_not_space: "py_isdigit c \<Longrightarrow> \<not> py_isspace c"
  by (auto simp: py_isdigit_def py_isspace_def Let_def)

lemma digit_not_special:
  assumes "py_isdigit c"
  shows "c \<noteq> CHR ''_''" and "c \<noteq> CHR ''+''" and "c \<noteq> CHR ''-''"
  using assms by (auto simp: py_isdigit_def)

lemma py_strip_blank: "list_all py_isspace s \<Longrightarrow> py_strip s = []"
proof -
  assume a: "list_all py_isspace s"
  hence "dropWhile py_isspace s = []" by (induction s) auto
  thus ?thesis unfolding py_strip_def by (simp only: rev.simps dropWhile.simps)
qed

lemma py_strip_index: assumes "is_index ds" shows "py_strip ds = ds"
proof -
  from assms obtain c cs where ds: "ds = c # cs" and all: "list_all py_isdigit ds"
    by (cases ds) (auto simp: is_index_def)
  have "\<not> py_isspace c" using ds all by (simp add: digit_not_space)
  hence 1: "dropWhile py_isspace ds = ds" by (simp add: ds)
  have "rev ds \<noteq> []" by (simp add: ds)
  moreover have "py_isdigit (hd (rev ds))"
    using all ds by (metis hd_rev last_in_set list.distinct(1) list_all_iff)
  ultimately have "dropWhile py_isspace (rev ds) = rev ds"
    by (cases "rev ds") (auto simp: digit_not_space)
  with 1 show ?thesis by (simp add: py_strip_def)
qed

lemma scan_digits_all: "list_all py_isdigit ds \<Longrightarrow> py_isdigit p \<Longrightarrow> scan_digits p ds"
  by (induction ds arbitrary: p) (auto simp: digit_not_special)

lemma py_int_index: assumes "is_index ds" shows "py_int ds = Some (decimal_value ds)"
proof -
  from assms obtain c cs where ds: "ds = c # cs" and all: "list_all py_isdigit (c # cs)"
    and len: "length ds \<le> int_max_str_digits"
    by (cases ds) (auto simp: is_index_def)
  have c: "py_isdigit c" using all by simp
  have ok: "digits_ok ds"
    using all c by (simp add: ds digits_ok_def digit_not_special scan_digits_all)
  have f: "filter py_isdigit ds = ds" using all by (simp add: ds list_all_iff)
  have s: "py_strip ds = c # cs" using py_strip_index[OF assms] by (simp add: ds)
  show ?thesis
    unfolding py_int_def s
    using ok f len digit_not_special[OF c] by (simp add: ds)
qed

lemma split_sep_none: "sep \<notin> set b \<Longrightarrow> split_sep sep cur b = [cur @ b]"
  by (induction b arbitrary: cur) auto

lemma split_sep_first:
  "sep \<notin> set a \<Longrightarrow> split_sep sep cur (a @ sep # b) = (cur @ a) # split_sep sep [] b"
  by (induction a arbitrary: cur) auto

lemma parse_pair_token:
  assumes "is_alignment_token tok" shows "parse_pair tok = Inr (token_pair tok)"
proof -
  define a where "a = takeWhile py_isdigit tok"
  define r where "r = dropWhile py_isdigit tok"
  from assms obtain b where r: "r = CHR ''-'' # b" and ia: "is_index a" and ib: "is_index b"
    by (auto simp: is_alignment_token_def Let_def a_def r_def split: list.splits)
  have tok: "tok = a @ CHR ''-'' # b" using r by (metis a_def r_def takeWhile_dropWhile_id)
  have na: "CHR ''-'' \<notin> set a" using ia digit_not_special(3) by (auto simp: is_index_def list_all_iff)
  have nb: "CHR ''-'' \<notin> set b" using ib digit_not_special(3) by (auto simp: is_index_def list_all_iff)
  have "py_split_on (CHR ''-'') tok = [a, b]"
    by (simp add: py_split_on_def tok split_sep_first[OF na] split_sep_none[OF nb])
  moreover have "token_pair tok = (decimal_value a, decimal_value b)"
    using r by (simp add: token_pair_def a_def[symmetric] r_def[symmetric])
  ultimately show ?thesis
    by (simp add: parse_pair_def py_int_index[OF ia] py_int_index[OF ib])
qed

lemma parse_pairs_tokens:
  "list_all is_alignment_token toks \<Longrightarrow> parse_pairs acc toks = Inr (acc @ map token_pair toks)"
  by (induction toks arbitrary: acc) (auto simp: parse_pair_token)

lemma parse_line_blank: "blank_line line \<Longrightarrow> parse_line line = Inr []"
  by (simp add: parse_line_def blank_line_def py_strip_blank)

lemma parse_line_well_formed: "well_formed_line line \<Longrightarrow> parse_line line = Inr (line_pairs line)"
  by (simp add: parse_line_def well_formed_line_def line_pairs_def parse_pairs_tokens Let_def)
     (simp add: py_split_def)

lemma parse_lines_Inr:
  "parse_lines acc ls = Inr res \<Longrightarrow> \<exists>rs. res = acc @ rs \<and> map parse_line ls = map Inr rs"
proof (induction ls arbitrary: acc)
  case Nil
  then show ?case by simp
next
  case (Cons l ls)
  then obtain ps where l: "parse_line l = Inr ps" and r: "parse_lines (acc @ [ps]) ls = Inr res"
    by (auto split: sum.splits)
  from Cons.IH[OF r] obtain rs where "res = (acc @ [ps]) @ rs" "map parse_line ls = map Inr rs"
    by blast
  then have "res = acc @ (ps # rs) \<and> map parse_line (l # ls) = map Inr (ps # rs)"
    using l by simp
  then show ?case by blast
qed

lemma parse_lines_map:
  "map parse_line ls = map Inr rs \<Longrightarrow> parse_lines acc ls = Inr (acc @ rs)"
  by (induction ls arbitrary: acc rs) auto

text \<open>
  Claim C1. The parser keeps the positions of the lines. Whenever it returns, its result
  has exactly one entry for each line of the file, entry \<open>i\<close> is what line \<open>i\<close> alone
  parses to, and a line of white space only gives the empty list at its position. It does
  return on every file that follows the output grammar of the aligner, with the index
  pairs of each line in token order; the line \<open>0-1 2-3\<close> gives \<open>[(0,1),(2,3)]\<close>.
\<close>

theorem parse_alignment_output_positional:
  "(list_all well_formed_line file_lines \<longrightarrow>
      parse_alignment_output file_lines = Inr (map line_pairs file_lines))
   \<and> (\<forall>alignments. parse_alignment_output file_lines = Inr alignments \<longrightarrow>
          length alignments = length file_lines
          \<and> (\<forall>i < length file_lines.
                 parse_line (file_lines ! i) = Inr (alignments ! i)
                 \<and> (blank_line (file_lines ! i) \<longrightarrow> alignments ! i = [])))
   \<and> parse_line ''0-1 2-3'' = Inr [(0, 1), (2, 3)]"
proof -
  have returns: "parse_alignment_output file_lines = Inr (map line_pairs file_lines)"
    if wf: "list_all well_formed_line file_lines"
  proof -
    have "map parse_line file_lines = map Inr (map line_pairs file_lines)"
      using wf by (simp add: list_all_iff parse_line_well_formed)
    from parse_lines_map[OF this, of "[]"] show ?thesis
      by (simp add: parse_alignment_output_def)
  qed
  have positional: "length alignments = length file_lines
          \<and> (\<forall>i < length file_lines.
                 parse_line (file_lines ! i) = Inr (alignments ! i)
                 \<and> (blank_line (file_lines ! i) \<longrightarrow> alignments ! i = []))"
    if r: "parse_alignment_output file_lines = Inr alignments" for alignments
  proof -
    from r obtain rs where "alignments = [] @ rs" and "map parse_line file_lines = map Inr rs"
      unfolding parse_alignment_output_def using parse_lines_Inr by blast
    hence m: "map parse_line file_lines = map Inr alignments" by simp
    hence len: "length file_lines = length alignments"
      by (metis length_map)
    have "parse_line (file_lines ! i) = Inr (alignments ! i)
          \<and> (blank_line (file_lines ! i) \<longrightarrow> alignments ! i = [])"
      if i: "i < length file_lines" for i
    proof -
      have "map parse_line file_lines ! i = map Inr alignments ! i" using m by simp
      hence "parse_line (file_lines ! i) = Inr (alignments ! i)"
        using i len by simp
      thus ?thesis using parse_line_blank[of "file_lines ! i"] by auto
    qed
    thus ?thesis using len by simp
  qed
  have example: "parse_line ''0-1 2-3'' = Inr [(0, 1), (2, 3)]"
    by (simp add: parse_line_def py_strip_def py_isspace_def py_split_def parse_pair_def
        py_split_on_def py_int_def digits_ok_def py_isdigit_def decimal_value_def
        digit_value_def int_max_str_digits_def)
  from returns positional example show ?thesis by blast
qed

theorem parse_alignment_output_positional_witness:
  "list_all well_formed_line [''0-1 2-3'' @ [CHR 0x0A], [CHR 0x0A], ''4-0'']
   \<and> parse_alignment_output [''0-1 2-3'' @ [CHR 0x0A], [CHR 0x0A], ''4-0'']
       = Inr [ [(0, 1), (2, 3)], [], [(4, 0)] ]
   \<and> blank_line [CHR 0x0A]"
  using parse_alignment_output_positional[of "[''0-1 2-3'' @ [CHR 0x0A], [CHR 0x0A], ''4-0'']"]
  by (simp add: well_formed_line_def is_alignment_token_def is_index_def line_pairs_def
      token_pair_def blank_line_def py_strip_def py_isspace_def py_split_def
      py_isdigit_def decimal_value_def digit_value_def int_max_str_digits_def)

lemmas sample_defs = pair_a_def pair_abc_def env_ok_def env_backward_fails_def
  env_malformed_def env_exhausted_def record_a_def record_out_of_range_def record_over_one_def

lemmas score_defs = calculate_alignment_score_def py_round_def round_half_even_def Let_def

lemmas eval_defs = run_pipeline_def loop_body_def reached_max_def run_fast_align_def
  output_file_lines_def parse_alignment_output_def parse_line_def parse_pair_def
  py_split_on_def py_int_def digits_ok_def decimal_value_def digit_value_def
  int_max_str_digits_def py_strip_def py_split_def py_isspace_def py_isdigit_def
  store_alignments_def build_alignment_def py_index_def

subsection \<open>Malformed output\<close>

lemma split_sep_length: "length (split_sep sep cur s) = Suc (count_list s sep)"
  by (induction s arbitrary: cur) auto

lemma parse_pair_error: "parse_pair tok = Inl e \<Longrightarrow> e = ValueError"
  by (auto simp: parse_pair_def split: list.splits option.splits)

lemma parse_pair_malformed:
  assumes "malformed_token tok" shows "parse_pair tok = Inl ValueError"
proof -
  have len: "length (py_split_on (CHR ''-'') tok) = Suc (count_list tok (CHR ''-''))"
    by (simp add: py_split_on_def split_sep_length)
  show ?thesis
  proof (cases "count_list tok (CHR ''-'') = 1")
    case True
    with len obtain a b where ab: "py_split_on (CHR ''-'') tok = [a, b]"
      by (cases "py_split_on (CHR ''-'') tok" rule: list.exhaust; simp)
         (metis length_0_conv length_Suc_conv)
    with assms True have "py_int a = None \<or> py_int b = None"
      by (auto simp: malformed_token_def)
    with ab show ?thesis by (auto simp: parse_pair_def split: option.splits)
  next
    case False
    with len have "length (py_split_on (CHR ''-'') tok) \<noteq> 2" by simp
    then show ?thesis by (auto simp: parse_pair_def split: list.splits)
  qed
qed

lemma parse_pairs_error:
  "tok \<in> set toks \<Longrightarrow> parse_pair tok = Inl e \<Longrightarrow> parse_pairs acc toks = Inl ValueError"
proof (induction toks arbitrary: acc)
  case Nil
  then show ?case by simp
next
  case (Cons a toks)
  then show ?case
    by (cases "parse_pair a") (auto dest: parse_pair_error)
qed

lemma py_split_Nil: "py_split [] = []"
  by (simp add: py_split_def)

lemma parse_line_malformed:
  assumes "tok \<in> set (py_split (py_strip line))" "malformed_token tok"
  shows "parse_line line = Inl ValueError"
proof -
  have "py_strip line \<noteq> []" using assms(1) by (auto simp: py_split_Nil)
  with parse_pairs_error[OF assms(1) parse_pair_malformed[OF assms(2)], of "[]"]
  show ?thesis by (simp add: parse_line_def)
qed

lemma parse_line_error: "parse_line line = Inl e \<Longrightarrow> e = ValueError"
proof -
  have "parse_pairs acc toks = Inl e \<Longrightarrow> e = ValueError" for acc toks
    by (induction toks arbitrary: acc) (auto split: sum.splits dest: parse_pair_error)
  moreover assume "parse_line line = Inl e"
  ultimately show ?thesis by (auto simp: parse_line_def Let_def split: if_splits)
qed

lemma parse_lines_error:
  "line \<in> set ls \<Longrightarrow> parse_line line = Inl e \<Longrightarrow> parse_lines acc ls = Inl ValueError"
proof (induction ls arbitrary: acc)
  case Nil
  then show ?case by simp
next
  case (Cons a ls)
  then show ?case
    by (cases "parse_line a") (auto dest: parse_line_error)
qed

lemma parse_alignment_output_error:
  "parse_alignment_output ls = Inl e \<Longrightarrow> e = ValueError"
proof -
  have "parse_lines acc ls = Inl e \<Longrightarrow> e = ValueError" for acc
    by (induction ls arbitrary: acc) (auto split: sum.splits dest: parse_line_error)
  moreover assume "parse_alignment_output ls = Inl e"
  ultimately show ?thesis by (simp add: parse_alignment_output_def)
qed

lemma malformed_output_raises:
  assumes "has_malformed_token file_lines"
  shows "parse_alignment_output file_lines = Inl ValueError"
proof -
  from assms obtain line tok where "line \<in> set file_lines"
    "tok \<in> set (py_split (py_strip line))" "malformed_token tok"
    by (auto simp: has_malformed_token_def list_ex_iff)
  with parse_lines_error[OF this(1) parse_line_malformed[OF this(2,3)] ]
  show ?thesis by (simp add: parse_alignment_output_def)
qed

subsection \<open>The score\<close>

lemma round_half_even_bounds:
  assumes "0 \<le> x" "x \<le> of_int n"
  shows "0 \<le> round_half_even x \<and> round_half_even x \<le> n"
proof -
  have f0: "0 \<le> \<lfloor>x\<rfloor>" using assms(1) by simp
  have fn: "\<lfloor>x\<rfloor> \<le> n" using assms(2) by (simp add: floor_le_iff)
  have up: "\<lfloor>x\<rfloor> + 1 \<le> n" if "0 < x - of_int \<lfloor>x\<rfloor>"
  proof -
    from that have "of_int \<lfloor>x\<rfloor> < x" by simp
    with assms(2) have "of_int \<lfloor>x\<rfloor> < (of_int n :: rat)" by simp
    thus ?thesis by simp
  qed
  show ?thesis
    using f0 fn up by (auto simp: round_half_even_def Let_def)
qed

lemma py_round_unit:
  assumes "0 \<le> x" "x \<le> 1"
  shows "0 \<le> py_round x 4 \<and> py_round x 4 \<le> 1"
proof -
  have "0 \<le> x * 10 ^ 4" "x * 10 ^ 4 \<le> of_int 10000" using assms by simp_all
  from round_half_even_bounds[OF this]
  have "0 \<le> round_half_even (x * 10 ^ 4)" "round_half_even (x * 10 ^ 4) \<le> 10000" by auto
  hence "(0::rat) \<le> of_int (round_half_even (x * 10 ^ 4))"
    "(of_int (round_half_even (x * 10 ^ 4)) :: rat) \<le> 10000"
    by (simp_all add: of_int_le_iff[where ?'a = rat and w = 10000, simplified])
  thus ?thesis by (simp add: py_round_def)
qed

lemma score_degenerate:
  "alignments = [] \<or> src_length = 0 \<or> tgt_length = 0 \<Longrightarrow>
   calculate_alignment_score alignments src_length tgt_length = 0"
  by (simp add: calculate_alignment_score_def)

lemma score_formula:
  "alignments \<noteq> [] \<Longrightarrow> src_length \<noteq> 0 \<Longrightarrow> tgt_length \<noteq> 0 \<Longrightarrow>
   calculate_alignment_score alignments src_length tgt_length =
     py_round (5 / 10 * (of_nat (card (fst ` set alignments)) / of_int src_length)
             + 3 / 10 * (min (of_nat (length alignments) / of_int src_length) 2 / 2)
             + 2 / 10 * (of_int (min src_length tgt_length) / of_int (max src_length tgt_length))) 4"
  by (simp add: calculate_alignment_score_def Let_def length_remdups_card_conv mult.commute)

lemma score_unit_interval:
  assumes "0 < src_length" "0 < tgt_length"
    and "int (card (fst ` set alignments)) \<le> src_length"
  shows "0 \<le> calculate_alignment_score alignments src_length tgt_length
       \<and> calculate_alignment_score alignments src_length tgt_length \<le> 1"
proof (cases "alignments = []")
  case True
  then show ?thesis by (simp add: calculate_alignment_score_def)
next
  case False
  define c :: rat where "c = of_nat (card (fst ` set alignments)) / of_int src_length"
  define d :: rat where "d = min (of_nat (length alignments) / of_int src_length) 2 / 2"
  define l :: rat where "l = of_int (min src_length tgt_length) / of_int (max src_length tgt_length)"
  have s: "(0::rat) < of_int src_length" using assms(1) by simp
  have "(of_nat (card (fst ` set alignments)) :: rat) \<le> of_int src_length"
    using assms(3) by (metis of_int_le_iff of_int_of_nat_eq)
  hence c: "0 \<le> c" "c \<le> 1" using s by (simp_all add: c_def)
  have "(0::rat) \<le> of_nat (length alignments) / of_int src_length" using s by simp
  hence d: "0 \<le> d" "d \<le> 1" by (simp_all add: d_def)
  have m: "(0::rat) < of_int (max src_length tgt_length)" using assms(1) by simp
  have "(of_int (min src_length tgt_length) :: rat) \<le> of_int (max src_length tgt_length)"
    by simp
  moreover have "(0::rat) \<le> of_int (min src_length tgt_length)" using assms(1,2) by simp
  ultimately have l: "0 \<le> l" "l \<le> 1" using m unfolding l_def by (simp_all del: of_int_min of_int_max)
  have "0 \<le> 5 / 10 * c + 3 / 10 * d + 2 / 10 * l" "5 / 10 * c + 3 / 10 * d + 2 / 10 * l \<le> 1"
    using c d l by simp_all
  from py_round_unit[OF this] score_formula[OF False, of src_length tgt_length] assms(1,2)
  show ?thesis by (simp add: c_def d_def l_def)
qed

text \<open>
  The scenario of the specification: \<open>a b c\<close> against \<open>x y\<close> with the forward alignment
  \<open>{(0,0),(1,1),(2,1)}\<close> scores \<open>0.7833\<close>.
\<close>

lemma score_spec_scenario:
  "calculate_alignment_score [(0, 0), (1, 1), (2, 1)] 3 2 = 7833 / 10000"
  by code_simp

lemma build_spec_scenario:
  "build_alignment pair_abc [(0, 0), (1, 1), (2, 1)] [(0, 1)] =
     Inr \<lparr>rec_purepecha_sentence_id = 3, rec_spanish_sentence_id = 4,
          alignment_method = ''fast_align'', alignment_score = 7833 / 10000,
          forward = [\<lparr>src_idx = 0, tgt_idx = 0, src_token = ''a'', tgt_token = ''x''\<rparr>,
                     \<lparr>src_idx = 1, tgt_idx = 1, src_token = ''b'', tgt_token = ''y''\<rparr>,
                     \<lparr>src_idx = 2, tgt_idx = 1, src_token = ''c'', tgt_token = ''y''\<rparr>],
          backward = [(1, 0)], quality_status = ''auto_aligned''\<rparr>"
  by code_simp

text \<open>
  Claim C2. The docstring promises a score between 0 and 1, and so does the claim. The
  coverage term counts the distinct source indices of the alignment, whatever the token
  count is, and is not capped: for the alignment \<open>[(0,0),(5,0)]\<close> of two sentences of
  one token each (the aligner line \<open>0-0 5-0\<close>) the function returns \<open>1.5\<close>, and
  \<open>store_alignments\<close> persists the record with that score.
\<close>

theorem score_exceeds_one:
  "calculate_alignment_score [(0, 0), (5, 0)] 1 1 = 3 / 2
   \<and> \<not> calculate_alignment_score [(0, 0), (5, 0)] 1 1 \<le> 1
   \<and> parse_alignment_output [''0-0 5-0''] = Inr [ [(0, 0), (5, 0)] ]
   \<and> store_alignments (\<lambda>k. False) [pair_a] [ [(0, 0), (5, 0)] ] [ [] ]
       = ([InsertAlignment record_over_one], 1, 0)"
  by (simp add: eval_defs sample_defs score_defs)

subsection \<open>Stored records\<close>

lemma build_alignment_fields:
  assumes "build_alignment pair fwd_align bwd_align = Inr r"
  shows "alignment_score r =
           calculate_alignment_score fwd_align
             (int (length (py_split (purepecha_text pair))))
             (int (length (py_split (spanish_text pair))))"
    and "quality_status r = (if 7 / 10 \<le> alignment_score r then ''auto_aligned'' else ''raw'')"
    and "forward_entries (py_split (purepecha_text pair)) (py_split (spanish_text pair)) fwd_align
           = Inr (forward r)"
  using assms by (auto simp: build_alignment_def Let_def split: sum.splits)

lemma store_loop_inserted:
  "InsertAlignment r \<in> set (fst (store_loop ir k triples s f)) \<Longrightarrow>
   \<exists>pair fwd_align bwd_align. (pair, fwd_align, bwd_align) \<in> set triples
      \<and> build_alignment pair fwd_align bwd_align = Inr r"
proof (induction triples arbitrary: k s f)
  case Nil
  then show ?case by simp
next
  case (Cons t triples)
  obtain pair fa ba where t: "t = (pair, fa, ba)" by (cases t) auto
  show ?case
  proof (cases "build_alignment pair fa ba")
    case (Inl e)
    with Cons.prems t
    have "InsertAlignment r \<in> set (fst (store_loop ir (Suc k) triples s (f + 1)))"
      by (auto split: prod.splits)
    from Cons.IH[OF this] show ?thesis by auto
  next
    case (Inr r')
    show ?thesis
    proof (cases "ir k")
      case True
      with Cons.prems t Inr
      have "InsertAlignment r \<in> set (fst (store_loop ir (Suc k) triples s (f + 1)))"
        by (auto split: prod.splits)
      from Cons.IH[OF this] show ?thesis by auto
    next
      case False
      with Cons.prems t Inr
      have "r = r' \<or> InsertAlignment r \<in> set (fst (store_loop ir (Suc k) triples (s + 1) f))"
        by (auto split: prod.splits)
      then show ?thesis
      proof
        assume "r = r'" with Inr t show ?thesis by auto
      next
        assume "InsertAlignment r \<in> set (fst (store_loop ir (Suc k) triples (s + 1) f))"
        from Cons.IH[OF this] show ?thesis by auto
      qed
    qed
  qed
qed

text \<open>
  Claim C3. Every record that \<open>store_alignments\<close> inserts carries the label
  \<open>auto_aligned\<close> exactly when its score is at least \<open>0.7\<close> and the label \<open>raw\<close>
  exactly when it is below, the score being the one computed for its sentence pair. The
  threshold is the same for every call: no argument of the function sets it.
\<close>

theorem quality_label_threshold:
  assumes "InsertAlignment r \<in> set (fst (store_alignments ir sentence_pairs fwds bwds))"
  shows "(quality_status r = ''auto_aligned'' \<longleftrightarrow> 7 / 10 \<le> alignment_score r)
       \<and> (quality_status r = ''raw'' \<longleftrightarrow> alignment_score r < 7 / 10)
       \<and> (\<exists>pair fwd_align bwd_align.
             (pair, fwd_align, bwd_align) \<in> set (zip sentence_pairs (zip fwds bwds))
             \<and> alignment_score r =
                 calculate_alignment_score fwd_align
                   (int (length (py_split (purepecha_text pair))))
                   (int (length (py_split (spanish_text pair)))))"
proof -
  from assms obtain pair fa ba where
    mem: "(pair, fa, ba) \<in> set (zip sentence_pairs (zip fwds bwds))"
    and b: "build_alignment pair fa ba = Inr r"
    unfolding store_alignments_def using store_loop_inserted by blast
  from build_alignment_fields(2)[OF b]
  have "(quality_status r = ''auto_aligned'' \<longleftrightarrow> 7 / 10 \<le> alignment_score r)
       \<and> (quality_status r = ''raw'' \<longleftrightarrow> alignment_score r < 7 / 10)"
    by (auto simp: not_le)
  with mem build_alignment_fields(1)[OF b] show ?thesis by blast
qed

theorem quality_label_threshold_witness:
  "InsertAlignment record_a \<in> set (fst (store_alignments (\<lambda>k. False) [pair_a] [ [(0, 0)] ] [ [(0, 0)] ]))
   \<and> quality_status record_a = ''auto_aligned'' \<and> 7 / 10 \<le> alignment_score record_a"
proof -
  have h: "InsertAlignment record_a
             \<in> set (fst (store_alignments (\<lambda>k. False) [pair_a] [ [(0, 0)] ] [ [(0, 0)] ]))"
    by (simp add: store_alignments_def build_alignment_def pair_a_def py_split_def py_isspace_def
        score_defs record_a_def py_index_def)
  from quality_label_threshold[OF h] h show ?thesis by (simp add: record_a_def)
qed

lemma forward_entries_filter:
  "forward_entries st tt al = Inr es \<Longrightarrow>
   map (\<lambda>e. (src_idx e, tgt_idx e)) es = filter (in_range st tt) al"
proof (induction al arbitrary: es)
  case Nil
  then show ?case by simp
next
  case (Cons a al)
  obtain s t where a: "a = (s, t)" by (cases a) auto
  show ?case
  proof (cases "in_range st tt (s, t)")
    case True
    with Cons.prems a obtain es' where "forward_entries st tt al = Inr es'"
      "src_idx (hd es) = s" "tgt_idx (hd es) = t" "es = hd es # es'"
      by (auto simp: in_range_def split: sum.splits)
    with Cons.IH[OF this(1)] True a show ?thesis
      by (metis (no_types, lifting) filter.simps(2) list.simps(9))
  next
    case False
    with Cons.prems a have "forward_entries st tt al = Inr es"
      by (auto simp: in_range_def)
    with Cons.IH[OF this] False a show ?thesis by simp
  qed
qed

text \<open>
  Claim C10. The score of a record is computed from the whole forward alignment, while
  the forward payload keeps only the entries that pass the range filter. So a pair whose
  forward entries are all out of range is stored with an empty forward payload and a
  score above zero: the pair \<open>a\<close> / \<open>x\<close> with the forward alignment \<open>[(1,1)]\<close> gets
  the score \<open>0.85\<close>.
\<close>

theorem score_before_filter:
  "(\<forall>pair fwd_align bwd_align r.
      build_alignment pair fwd_align bwd_align = Inr r \<longrightarrow>
        alignment_score r =
          calculate_alignment_score fwd_align
            (int (length (py_split (purepecha_text pair))))
            (int (length (py_split (spanish_text pair))))
        \<and> map (\<lambda>e. (src_idx e, tgt_idx e)) (forward r) =
            filter (in_range (py_split (purepecha_text pair)) (py_split (spanish_text pair)))
              fwd_align)
   \<and> \<not> in_range (py_split (purepecha_text pair_a)) (py_split (spanish_text pair_a)) (1, 1)
   \<and> store_alignments (\<lambda>k. False) [pair_a] [ [(1, 1)] ] [ [] ]
       = ([InsertAlignment record_out_of_range], 1, 0)
   \<and> forward record_out_of_range = []
   \<and> 0 < alignment_score record_out_of_range"
proof -
  have "alignment_score r =
          calculate_alignment_score fwd_align
            (int (length (py_split (purepecha_text pair))))
            (int (length (py_split (spanish_text pair))))
        \<and> map (\<lambda>e. (src_idx e, tgt_idx e)) (forward r) =
            filter (in_range (py_split (purepecha_text pair)) (py_split (spanish_text pair)))
              fwd_align"
    if "build_alignment pair fwd_align bwd_align = Inr r" for pair fwd_align bwd_align r
    using build_alignment_fields(1)[OF that]
      forward_entries_filter[OF build_alignment_fields(3)[OF that] ] by simp
  moreover have "\<not> in_range (py_split (purepecha_text pair_a)) (py_split (spanish_text pair_a)) (1, 1)"
    by (simp add: in_range_def pair_a_def py_split_def py_isspace_def)
  moreover have "store_alignments (\<lambda>k. False) [pair_a] [ [(1, 1)] ] [ [] ]
       = ([InsertAlignment record_out_of_range], 1, 0)"
    by (simp add: store_alignments_def build_alignment_def pair_a_def py_split_def py_isspace_def
        score_defs record_out_of_range_def)
  moreover have "forward record_out_of_range = [] \<and> 0 < alignment_score record_out_of_range"
    by (simp add: record_out_of_range_def)
  ultimately show ?thesis by blast
qed

theorem score_before_filter_witness:
  "build_alignment pair_a [(1, 1)] [] = Inr record_out_of_range
   \<and> alignment_score record_out_of_range = calculate_alignment_score [(1, 1)] 1 1
   \<and> filter (in_range [''a''] [''x'']) [(1, 1)] = []"
proof -
  have b: "build_alignment pair_a [(1, 1)] [] = Inr record_out_of_range"
    by (simp add: build_alignment_def pair_a_def py_split_def py_isspace_def
        score_defs record_out_of_range_def)
  have t: "py_split (purepecha_text pair_a) = [''a'']" "py_split (spanish_text pair_a) = [''x'']"
    by (simp_all add: pair_a_def py_split_def py_isspace_def)
  from score_before_filter b have "alignment_score record_out_of_range =
          calculate_alignment_score [(1, 1)]
            (int (length (py_split (purepecha_text pair_a))))
            (int (length (py_split (spanish_text pair_a))))
        \<and> map (\<lambda>e. (src_idx e, tgt_idx e)) (forward record_out_of_range) =
            filter (in_range (py_split (purepecha_text pair_a)) (py_split (spanish_text pair_a)))
              [(1, 1)]"
    by blast
  with b t show ?thesis by (simp add: record_out_of_range_def)
qed

subsection \<open>Launching the aligner\<close>




subsection \<open>One iteration of the batch loop\<close>

lemma quiet_simps [simp]:
  "quiet []"
  "quiet (e # evs) = (\<not> is_insert e \<and> \<not> is_update e \<and> \<not> is_complete e \<and> quiet evs)"
  "quiet (xs @ ys) = (quiet xs \<and> quiet ys)"
  by (auto simp: quiet_def)

lemma run_fast_align_quiet: "quiet (fst (run_fast_align reverse proc))"
  by (cases proc) (auto simp: run_fast_align_def)

lemma store_loop_events:
  "store_loop ir k ts s f = (evs, s', f') \<Longrightarrow>
     s' = s + records_inserted evs \<and> \<not> list_ex is_update evs \<and> \<not> list_ex is_complete evs
     \<and> s' + f' = s + f + int (length ts)"
proof (induction ts arbitrary: k s f evs s' f')
  case Nil
  then show ?case by (simp add: records_inserted_def)
next
  case (Cons t ts)
  obtain pair fa ba where t: "t = (pair, fa, ba)" by (cases t) auto
  show ?case
  proof (cases "\<exists>r. build_alignment pair fa ba = Inr r \<and> \<not> ir k")
    case True
    then obtain r where r: "build_alignment pair fa ba = Inr r" "\<not> ir k" by blast
    obtain evs1 s1 f1 where rec: "store_loop ir (Suc k) ts (s + 1) f = (evs1, s1, f1)"
      by (cases "store_loop ir (Suc k) ts (s + 1) f") auto
    from Cons.prems t r rec have "evs = InsertAlignment r # evs1" "s' = s1" "f' = f1"
      by auto
    with Cons.IH[OF rec] show ?thesis by (simp add: records_inserted_def)
  next
    case False
    obtain evs1 s1 f1 where rec: "store_loop ir (Suc k) ts s (f + 1) = (evs1, s1, f1)"
      by (cases "store_loop ir (Suc k) ts s (f + 1)") auto
    from Cons.prems t False rec
    have "evs = LogError ''Failed to store alignment'' # evs1" "s' = s1" "f' = f1"
      by (auto split: sum.splits if_splits)
    with Cons.IH[OF rec] show ?thesis by (simp add: records_inserted_def)
  qed
qed

lemma store_alignments_events:
  "store_alignments ir ps fs bs = (evs, s, f) \<Longrightarrow>
     s = records_inserted evs \<and> \<not> list_ex is_update evs \<and> \<not> list_ex is_complete evs"
  unfolding store_alignments_def using store_loop_events by fastforce

text \<open>The cases of the loop body.\<close>

lemma loop_body_empty:
  "unaligned_pairs env = [] \<Longrightarrow>
   loop_body bs env st = ([GetUnalignedPairs bs], Break (st\<lparr>batch_num := batch_num st + 1\<rparr>))"
  by (simp add: loop_body_def)

lemma loop_body_forward_raises:
  "unaligned_pairs env \<noteq> [] \<Longrightarrow> run_fast_align False (forward_proc env) = (ev1, Inl e) \<Longrightarrow>
   loop_body bs env st = (GetUnalignedPairs bs # ev1, Raise e)"
  by (simp add: loop_body_def)

lemma loop_body_forward_fails:
  "unaligned_pairs env \<noteq> [] \<Longrightarrow> run_fast_align False (forward_proc env) = (ev1, Inr False) \<Longrightarrow>
   loop_body bs env st =
     (GetUnalignedPairs bs # ev1 @ [LogError ''Forward alignment failed''],
      Continue (st\<lparr>batch_num := batch_num st + 1,
                   total_failed := total_failed st + int (length (unaligned_pairs env))\<rparr>))"
  by (simp add: loop_body_def)

lemma loop_body_backward_raises:
  "unaligned_pairs env \<noteq> [] \<Longrightarrow> run_fast_align False (forward_proc env) = (ev1, Inr True) \<Longrightarrow>
   run_fast_align True (backward_proc env) = (ev2, Inl e) \<Longrightarrow>
   loop_body bs env st = (GetUnalignedPairs bs # ev1 @ ev2, Raise e)"
  by (simp add: loop_body_def)

lemma loop_body_backward_fails:
  "unaligned_pairs env \<noteq> [] \<Longrightarrow> run_fast_align False (forward_proc env) = (ev1, Inr True) \<Longrightarrow>
   run_fast_align True (backward_proc env) = (ev2, Inr False) \<Longrightarrow>
   loop_body bs env st =
     (GetUnalignedPairs bs # ev1 @ ev2 @ [LogError ''Backward alignment failed''],
      Continue (st\<lparr>batch_num := batch_num st + 1,
                   total_failed := total_failed st + int (length (unaligned_pairs env))\<rparr>))"
  by (simp add: loop_body_def)

lemma loop_body_forward_parse_raises:
  "unaligned_pairs env \<noteq> [] \<Longrightarrow> run_fast_align False (forward_proc env) = (ev1, Inr True) \<Longrightarrow>
   run_fast_align True (backward_proc env) = (ev2, Inr True) \<Longrightarrow>
   parse_alignment_output (output_file_lines (forward_proc env)) = Inl e \<Longrightarrow>
   loop_body bs env st = (GetUnalignedPairs bs # ev1 @ ev2, Raise e)"
  by (simp add: loop_body_def)

lemma loop_body_backward_parse_raises:
  "unaligned_pairs env \<noteq> [] \<Longrightarrow> run_fast_align False (forward_proc env) = (ev1, Inr True) \<Longrightarrow>
   run_fast_align True (backward_proc env) = (ev2, Inr True) \<Longrightarrow>
   parse_alignment_output (output_file_lines (forward_proc env)) = Inr fa \<Longrightarrow>
   parse_alignment_output (output_file_lines (backward_proc env)) = Inl e \<Longrightarrow>
   loop_body bs env st = (GetUnalignedPairs bs # ev1 @ ev2, Raise e)"
  by (simp add: loop_body_def)

lemma loop_body_stores:
  "unaligned_pairs env \<noteq> [] \<Longrightarrow> run_fast_align False (forward_proc env) = (ev1, Inr True) \<Longrightarrow>
   run_fast_align True (backward_proc env) = (ev2, Inr True) \<Longrightarrow>
   parse_alignment_output (output_file_lines (forward_proc env)) = Inr fa \<Longrightarrow>
   parse_alignment_output (output_file_lines (backward_proc env)) = Inr ba \<Longrightarrow>
   store_alignments (insert_raises env) (unaligned_pairs env) fa ba = (ev3, s, f) \<Longrightarrow>
   loop_body bs env st =
     (GetUnalignedPairs bs # ev1 @ ev2 @ ev3 @
        [UpdateProgress (total_aligned st + s + (total_failed st + f))
           (total_aligned st + s) (total_failed st + f)],
      Continue (st\<lparr>batch_num := batch_num st + 1,
                   total_aligned := total_aligned st + s,
                   total_failed := total_failed st + f\<rparr>))"
  by (simp add: loop_body_def)

text \<open>Every iteration is of one of two shapes.\<close>

lemma loop_body_shape:
  assumes "loop_body bs env st = (evs, step)"
  shows "(quiet evs \<and> (\<forall>st'. step = Continue st' \<longrightarrow> total_aligned st' = total_aligned st))
       \<or> (\<exists>ev0 ev3 st'. evs = ev0 @ ev3 @
              [UpdateProgress (total_aligned st' + total_failed st') (total_aligned st')
                 (total_failed st')]
            \<and> quiet ev0 \<and> \<not> list_ex is_update ev3 \<and> \<not> list_ex is_complete ev3
            \<and> step = Continue st'
            \<and> total_aligned st' = total_aligned st + records_inserted ev3)"
proof (cases "unaligned_pairs env = []")
  case True
  with assms loop_body_empty[OF True, of bs st] show ?thesis by auto
next
  case ne: False
  obtain ev1 r1 where f1: "run_fast_align False (forward_proc env) = (ev1, r1)"
    by (cases "run_fast_align False (forward_proc env)") auto
  have q1: "quiet ev1" using run_fast_align_quiet[of False "forward_proc env"] f1 by simp
  obtain ev2 r2 where f2: "run_fast_align True (backward_proc env) = (ev2, r2)"
    by (cases "run_fast_align True (backward_proc env)") auto
  have q2: "quiet ev2" using run_fast_align_quiet[of True "backward_proc env"] f2 by simp
  show ?thesis
  proof (cases r1)
    case (Inl e)
    with assms loop_body_forward_raises[OF ne, of ev1 e bs st] f1 q1 show ?thesis by auto
  next
    case (Inr b1)
    show ?thesis
    proof (cases b1)
      case False
      with assms loop_body_forward_fails[OF ne, of ev1 bs st] f1 q1 Inr show ?thesis by auto
    next
      case b1: True
      have f1': "run_fast_align False (forward_proc env) = (ev1, Inr True)"
        using f1 Inr b1 by simp
      show ?thesis
      proof (cases r2)
        case (Inl e)
        with assms loop_body_backward_raises[OF ne f1', of ev2 e bs st] f2 q1 q2
        show ?thesis by auto
      next
        case r2: (Inr b2)
        show ?thesis
        proof (cases b2)
          case False
          with assms loop_body_backward_fails[OF ne f1', of ev2 bs st] f2 q1 q2 r2
          show ?thesis by auto
        next
          case b2: True
          have f2': "run_fast_align True (backward_proc env) = (ev2, Inr True)"
            using f2 r2 b2 by simp
          show ?thesis
          proof (cases "parse_alignment_output (output_file_lines (forward_proc env))")
            case (Inl e)
            with assms loop_body_forward_parse_raises[OF ne f1' f2', of e bs st] q1 q2
            show ?thesis by auto
          next
            case pf: (Inr fa)
            show ?thesis
            proof (cases "parse_alignment_output (output_file_lines (backward_proc env))")
              case (Inl e)
              with assms loop_body_backward_parse_raises[OF ne f1' f2' pf, of e bs st] q1 q2
              show ?thesis by auto
            next
              case pb: (Inr ba)
              obtain ev3 s f where
                st: "store_alignments (insert_raises env) (unaligned_pairs env) fa ba = (ev3, s, f)"
                by (cases "store_alignments (insert_raises env) (unaligned_pairs env) fa ba") auto
              from store_alignments_events[OF st]
              have s: "s = records_inserted ev3" and nu: "\<not> list_ex is_update ev3"
                and nc: "\<not> list_ex is_complete ev3" by auto
              let ?st' = "st\<lparr>batch_num := batch_num st + 1,
                   total_aligned := total_aligned st + s,
                   total_failed := total_failed st + f\<rparr>"
              from assms loop_body_stores[OF ne f1' f2' pf pb st, of bs st]
              have "evs = (GetUnalignedPairs bs # ev1 @ ev2) @ ev3 @
                [UpdateProgress (total_aligned ?st' + total_failed ?st') (total_aligned ?st')
                 (total_failed ?st')]" and "step = Continue ?st'"
                by auto
              moreover have "quiet (GetUnalignedPairs bs # ev1 @ ev2)" using q1 q2 by simp
              moreover have "total_aligned ?st' = total_aligned st + records_inserted ev3"
                using s by simp
              ultimately show ?thesis using nu nc by blast
            qed
          qed
        qed
      qed
    qed
  qed
qed

lemma quiet_no_kind:
  "quiet evs \<Longrightarrow> \<not> list_ex is_insert evs \<and> \<not> list_ex is_update evs \<and> \<not> list_ex is_complete evs"
  by (induction evs) auto

lemma run_loop_Cons_Continue:
  assumes "\<not> reached_max mb st" "loop_body bs env st = (evs, Continue st')"
  shows "run_loop bs mb (env # world) st =
           (evs @ fst (run_loop bs mb world st'), snd (run_loop bs mb world st'))"
  using assms by (simp add: case_prod_unfold Let_def)

lemma run_loop_Cons_Raise:
  assumes "\<not> reached_max mb st" "loop_body bs env st = (evs, Raise e)"
  shows "run_loop bs mb (env # world) st = (evs, LoopRaised e)"
  using assms by simp

lemma run_loop_Cons_Break:
  assumes "\<not> reached_max mb st" "loop_body bs env st = (evs, Break st')"
  shows "run_loop bs mb (env # world) st = (evs, LoopExit st')"
  using assms by simp

text \<open>
  Claim C4. When the forward invocation returns failure, or the forward one succeeds and
  the backward one returns failure, the iteration inserts no record, adds the size of the
  batch to \<open>total_failed\<close>, leaves \<open>total_aligned\<close> as it is, and the loop goes
  on with the next batch.
\<close>

theorem failed_invocation_skips_batch:
  assumes batch: "unaligned_pairs env \<noteq> []"
    and more: "\<not> reached_max mb st"
    and fails: "snd (run_fast_align False (forward_proc env)) = Inr False
              \<or> (snd (run_fast_align False (forward_proc env)) = Inr True
                 \<and> snd (run_fast_align True (backward_proc env)) = Inr False)"
  shows "\<exists>evs st'. loop_body bs env st = (evs, Continue st')
           \<and> \<not> list_ex is_insert evs
           \<and> total_failed st' = total_failed st + int (length (unaligned_pairs env))
           \<and> total_aligned st' = total_aligned st
           \<and> run_loop bs mb (env # world) st =
               (evs @ fst (run_loop bs mb world st'), snd (run_loop bs mb world st'))"
proof -
  let ?st' = "st\<lparr>batch_num := batch_num st + 1,
                 total_failed := total_failed st + int (length (unaligned_pairs env))\<rparr>"
  obtain ev1 r1 where f1: "run_fast_align False (forward_proc env) = (ev1, r1)"
    by (cases "run_fast_align False (forward_proc env)") auto
  obtain ev2 r2 where f2: "run_fast_align True (backward_proc env) = (ev2, r2)"
    by (cases "run_fast_align True (backward_proc env)") auto
  have q1: "quiet ev1" using run_fast_align_quiet[of False "forward_proc env"] f1 by simp
  have q2: "quiet ev2" using run_fast_align_quiet[of True "backward_proc env"] f2 by simp
  from fails f1 f2 consider (fwd) "r1 = Inr False" | (bwd) "r1 = Inr True" "r2 = Inr False"
    by auto
  then obtain evs where body: "loop_body bs env st = (evs, Continue ?st')" and q: "quiet evs"
  proof cases
    case fwd
    with loop_body_forward_fails[OF batch, of ev1 bs st] f1 q1 that show ?thesis by simp
  next
    case bwd
    with loop_body_backward_fails[OF batch, of ev1 ev2 bs st] f1 f2 q1 q2 that
    show ?thesis by simp
  qed
  from run_loop_Cons_Continue[OF more body] body quiet_no_kind[OF q]
  show ?thesis by auto
qed

theorem failed_invocation_skips_batch_witness:
  "unaligned_pairs env_backward_fails \<noteq> []
   \<and> \<not> reached_max None \<lparr>batch_num = 0, total_aligned = 0, total_failed = 0\<rparr>
   \<and> snd (run_fast_align False (forward_proc env_backward_fails)) = Inr True
   \<and> snd (run_fast_align True (backward_proc env_backward_fails)) = Inr False
   \<and> (\<exists>evs st'. loop_body 1000 env_backward_fails
                  \<lparr>batch_num = 0, total_aligned = 0, total_failed = 0\<rparr> = (evs, Continue st')
         \<and> \<not> list_ex is_insert evs \<and> total_failed st' = 1 \<and> total_aligned st' = 0
         \<and> run_loop 1000 None [env_backward_fails, env_exhausted]
             \<lparr>batch_num = 0, total_aligned = 0, total_failed = 0\<rparr>
             = (evs @ [GetUnalignedPairs 1000],
                LoopExit \<lparr>batch_num = 2, total_aligned = 0, total_failed = 1\<rparr>))"
proof -
  let ?init = "\<lparr>batch_num = 0, total_aligned = 0, total_failed = 0\<rparr>"
  have 1: "unaligned_pairs env_backward_fails \<noteq> []" by (simp add: sample_defs)
  have 2: "\<not> reached_max None ?init" by (simp add: reached_max_def)
  have 3: "snd (run_fast_align False (forward_proc env_backward_fails)) = Inr True"
    by (simp add: sample_defs run_fast_align_def)
  have 4: "snd (run_fast_align True (backward_proc env_backward_fails)) = Inr False"
    by (simp add: sample_defs run_fast_align_def)
  from failed_invocation_skips_batch[OF 1 2, of 1000 "[env_exhausted]"] 3 4
  obtain evs st' where
    "loop_body 1000 env_backward_fails ?init = (evs, Continue st')"
    "\<not> list_ex is_insert evs"
    "total_failed st' = total_failed ?init + int (length (unaligned_pairs env_backward_fails))"
    "total_aligned st' = total_aligned ?init"
    "run_loop 1000 None [env_backward_fails, env_exhausted] ?init =
       (evs @ fst (run_loop 1000 None [env_exhausted] st'),
        snd (run_loop 1000 None [env_exhausted] st'))"
    by blast
  moreover from this(1) have "st' = \<lparr>batch_num = 1, total_aligned = 0, total_failed = 1\<rparr>"
    by (simp add: loop_body_def sample_defs run_fast_align_def)
  ultimately show ?thesis using 1 2 3 4
    by (simp add: reached_max_def loop_body_def sample_defs)
qed

lemma loop_body_stored_iteration:
  assumes body: "loop_body bs env st = (evs, Continue st')"
    and ok: "invocations_succeed env"
  shows "\<exists>fa ba ev0 ev3 successful failed.
           parse_alignment_output (output_file_lines (forward_proc env)) = Inr fa
         \<and> parse_alignment_output (output_file_lines (backward_proc env)) = Inr ba
         \<and> store_alignments (insert_raises env) (unaligned_pairs env) fa ba
             = (ev3, successful, failed)
         \<and> st' = st\<lparr>batch_num := batch_num st + 1,
                     total_aligned := total_aligned st + successful,
                     total_failed := total_failed st + failed\<rparr>
         \<and> evs = ev0 @ ev3 @
                   [UpdateProgress (total_aligned st + successful + (total_failed st + failed))
                      (total_aligned st + successful) (total_failed st + failed)]
         \<and> quiet ev0 \<and> \<not> list_ex is_update ev3"
proof -
  have ne: "unaligned_pairs env \<noteq> []"
    using body loop_body_empty[of env bs st] by auto
  obtain ev1 where f1: "run_fast_align False (forward_proc env) = (ev1, Inr True)"
    using ok by (cases "run_fast_align False (forward_proc env)") (auto simp: invocations_succeed_def)
  obtain ev2 where f2: "run_fast_align True (backward_proc env) = (ev2, Inr True)"
    using ok by (cases "run_fast_align True (backward_proc env)") (auto simp: invocations_succeed_def)
  have q1: "quiet ev1" using run_fast_align_quiet[of False "forward_proc env"] f1 by simp
  have q2: "quiet ev2" using run_fast_align_quiet[of True "backward_proc env"] f2 by simp
  from body loop_body_forward_parse_raises[OF ne f1 f2, of _ bs st]
  obtain fa where pf: "parse_alignment_output (output_file_lines (forward_proc env)) = Inr fa"
    by (cases "parse_alignment_output (output_file_lines (forward_proc env))") auto
  from body loop_body_backward_parse_raises[OF ne f1 f2 pf, of _ bs st]
  obtain ba where pb: "parse_alignment_output (output_file_lines (backward_proc env)) = Inr ba"
    by (cases "parse_alignment_output (output_file_lines (backward_proc env))") auto
  obtain ev3 s f where
    st: "store_alignments (insert_raises env) (unaligned_pairs env) fa ba = (ev3, s, f)"
    by (cases "store_alignments (insert_raises env) (unaligned_pairs env) fa ba") auto
  from store_alignments_events[OF st] have nu: "\<not> list_ex is_update ev3" by simp
  from body loop_body_stores[OF ne f1 f2 pf pb st, of bs st]
  have "evs = (GetUnalignedPairs bs # ev1 @ ev2) @ ev3 @
             [UpdateProgress (total_aligned st + s + (total_failed st + f))
                (total_aligned st + s) (total_failed st + f)]"
    and "st' = st\<lparr>batch_num := batch_num st + 1,
                     total_aligned := total_aligned st + s,
                     total_failed := total_failed st + f\<rparr>"
    by auto
  moreover have "quiet (GetUnalignedPairs bs # ev1 @ ev2)" using q1 q2 by simp
  ultimately show ?thesis using pf pb st nu by blast
qed

lemma loop_body_failed_iteration:
  assumes body: "loop_body bs env st = (evs, Continue st')"
    and nok: "\<not> invocations_succeed env"
  shows "quiet evs
       \<and> st' = st\<lparr>batch_num := batch_num st + 1,
                   total_failed := total_failed st + int (length (unaligned_pairs env))\<rparr>"
proof -
  have ne: "unaligned_pairs env \<noteq> []"
    using body loop_body_empty[of env bs st] by auto
  obtain ev1 r1 where f1: "run_fast_align False (forward_proc env) = (ev1, r1)"
    by (cases "run_fast_align False (forward_proc env)") auto
  obtain ev2 r2 where f2: "run_fast_align True (backward_proc env) = (ev2, r2)"
    by (cases "run_fast_align True (backward_proc env)") auto
  have q1: "quiet ev1" using run_fast_align_quiet[of False "forward_proc env"] f1 by simp
  have q2: "quiet ev2" using run_fast_align_quiet[of True "backward_proc env"] f2 by simp
  show ?thesis
  proof (cases r1)
    case (Inl e)
    with body loop_body_forward_raises[OF ne, of ev1 e bs st] f1 show ?thesis by auto
  next
    case (Inr b1)
    show ?thesis
    proof (cases b1)
      case False
      with body loop_body_forward_fails[OF ne, of ev1 bs st] f1 q1 Inr show ?thesis by auto
    next
      case b1: True
      hence f1': "run_fast_align False (forward_proc env) = (ev1, Inr True)"
        using f1 Inr by simp
      show ?thesis
      proof (cases r2)
        case (Inl e)
        with body loop_body_backward_raises[OF ne f1', of ev2 e bs st] f2 show ?thesis by auto
      next
        case r2: (Inr b2)
        with nok f1' f2 have "\<not> b2" by (auto simp: invocations_succeed_def)
        with body loop_body_backward_fails[OF ne f1', of ev2 bs st] f2 r2 q1 q2
        show ?thesis by auto
      qed
    qed
  qed
qed

text \<open>
  Claim C5, amended. An iteration that stores a batch (both invocations succeeded, both
  outputs parsed) adds the two counts that \<open>store_alignments\<close> returns to the
  counters it started with and ends with exactly one progress update, which carries these
  new cumulative totals. An iteration in which an invocation returned failure makes no
  progress update; it adds the size of its batch to \<open>total_failed\<close>, so that the
  update of a stored batch that follows it reports these failures too.
\<close>

theorem progress_update_after_stored_batch:
  assumes body: "loop_body bs env st = (evs, Continue st')"
  shows "(if invocations_succeed env
          then \<exists>fa ba evs0 successful failed.
                 parse_alignment_output (output_file_lines (forward_proc env)) = Inr fa
               \<and> parse_alignment_output (output_file_lines (backward_proc env)) = Inr ba
               \<and> (\<exists>ev3. store_alignments (insert_raises env) (unaligned_pairs env) fa ba
                           = (ev3, successful, failed))
               \<and> total_aligned st' = total_aligned st + successful
               \<and> total_failed st' = total_failed st + failed
               \<and> evs = evs0 @ [UpdateProgress (total_aligned st' + total_failed st')
                                   (total_aligned st') (total_failed st')]
               \<and> \<not> list_ex is_update evs0
          else \<not> list_ex is_update evs
               \<and> total_aligned st' = total_aligned st
               \<and> total_failed st' = total_failed st + int (length (unaligned_pairs env)))
       \<and> (\<forall>env2 evs2 st2.
             \<not> invocations_succeed env \<and> invocations_succeed env2
             \<and> loop_body bs env2 st' = (evs2, Continue st2) \<longrightarrow>
             (\<exists>fa ba evs0 ev3 successful failed.
                 parse_alignment_output (output_file_lines (forward_proc env2)) = Inr fa
               \<and> parse_alignment_output (output_file_lines (backward_proc env2)) = Inr ba
               \<and> store_alignments (insert_raises env2) (unaligned_pairs env2) fa ba
                   = (ev3, successful, failed)
               \<and> evs2 = evs0 @
                   [UpdateProgress
                      (total_aligned st + successful
                       + (total_failed st + int (length (unaligned_pairs env)) + failed))
                      (total_aligned st + successful)
                      (total_failed st + int (length (unaligned_pairs env)) + failed)]))"
proof -
  have one: "if invocations_succeed env
          then \<exists>fa ba evs0 successful failed.
                 parse_alignment_output (output_file_lines (forward_proc env)) = Inr fa
               \<and> parse_alignment_output (output_file_lines (backward_proc env)) = Inr ba
               \<and> (\<exists>ev3. store_alignments (insert_raises env) (unaligned_pairs env) fa ba
                           = (ev3, successful, failed))
               \<and> total_aligned st' = total_aligned st + successful
               \<and> total_failed st' = total_failed st + failed
               \<and> evs = evs0 @ [UpdateProgress (total_aligned st' + total_failed st')
                                   (total_aligned st') (total_failed st')]
               \<and> \<not> list_ex is_update evs0
          else \<not> list_ex is_update evs
               \<and> total_aligned st' = total_aligned st
               \<and> total_failed st' = total_failed st + int (length (unaligned_pairs env))"
  proof (cases "invocations_succeed env")
    case True
    from loop_body_stored_iteration[OF body True]
    obtain fa ba ev0 ev3 s f where
      p: "parse_alignment_output (output_file_lines (forward_proc env)) = Inr fa"
         "parse_alignment_output (output_file_lines (backward_proc env)) = Inr ba"
         "store_alignments (insert_raises env) (unaligned_pairs env) fa ba = (ev3, s, f)"
      and st': "st' = st\<lparr>batch_num := batch_num st + 1,
                     total_aligned := total_aligned st + s,
                     total_failed := total_failed st + f\<rparr>"
      and evs: "evs = ev0 @ ev3 @
                   [UpdateProgress (total_aligned st + s + (total_failed st + f))
                      (total_aligned st + s) (total_failed st + f)]"
      and q: "quiet ev0" "\<not> list_ex is_update ev3"
      by blast
    have "evs = (ev0 @ ev3) @ [UpdateProgress (total_aligned st' + total_failed st')
                                   (total_aligned st') (total_failed st')]"
      using evs st' by simp
    moreover have "\<not> list_ex is_update (ev0 @ ev3)"
      using quiet_no_kind[OF q(1)] q(2) by simp
    moreover have "total_aligned st' = total_aligned st + s" "total_failed st' = total_failed st + f"
      using st' by simp_all
    ultimately show ?thesis using True p by (simp only: if_True) blast
  next
    case False
    from loop_body_failed_iteration[OF body False] quiet_no_kind[of evs] False
    show ?thesis by simp
  qed
  have two: "\<exists>fa ba evs0 ev3 successful failed.
                 parse_alignment_output (output_file_lines (forward_proc env2)) = Inr fa
               \<and> parse_alignment_output (output_file_lines (backward_proc env2)) = Inr ba
               \<and> store_alignments (insert_raises env2) (unaligned_pairs env2) fa ba
                   = (ev3, successful, failed)
               \<and> evs2 = evs0 @
                   [UpdateProgress
                      (total_aligned st + successful
                       + (total_failed st + int (length (unaligned_pairs env)) + failed))
                      (total_aligned st + successful)
                      (total_failed st + int (length (unaligned_pairs env)) + failed)]"
    if nok: "\<not> invocations_succeed env" and ok2: "invocations_succeed env2"
      and body2: "loop_body bs env2 st' = (evs2, Continue st2)" for env2 evs2 st2
  proof -
    from loop_body_failed_iteration[OF body nok]
    have st': "total_aligned st' = total_aligned st"
      "total_failed st' = total_failed st + int (length (unaligned_pairs env))" by simp_all
    from loop_body_stored_iteration[OF body2 ok2]
    obtain fa ba ev0 ev3 s f where
      p: "parse_alignment_output (output_file_lines (forward_proc env2)) = Inr fa"
         "parse_alignment_output (output_file_lines (backward_proc env2)) = Inr ba"
         "store_alignments (insert_raises env2) (unaligned_pairs env2) fa ba = (ev3, s, f)"
      and evs: "evs2 = ev0 @ ev3 @
                   [UpdateProgress (total_aligned st' + s + (total_failed st' + f))
                      (total_aligned st' + s) (total_failed st' + f)]"
      by blast
    have "evs2 = (ev0 @ ev3) @
                   [UpdateProgress
                      (total_aligned st + s
                       + (total_failed st + int (length (unaligned_pairs env)) + f))
                      (total_aligned st + s)
                      (total_failed st + int (length (unaligned_pairs env)) + f)]"
      using evs st' by simp
    with p show ?thesis by blast
  qed
  from one two show ?thesis by blast
qed

subsection \<open>Sample runs\<close>

lemma run_ok: "run_pipeline 1000 None [env_ok, env_exhausted] =
  ([StartRun 1000, GetUnalignedPairs 1000, RunFastAlign False, RunFastAlign True,
    InsertAlignment record_a, UpdateProgress 1 1 0, GetUnalignedPairs 1000,
    CompleteRun ''completed''],
   Returned \<lparr>batch_num = 2, total_aligned = 1, total_failed = 0\<rparr>)"
  by (simp add: eval_defs sample_defs score_defs)

lemma run_backward_fails: "run_pipeline 1000 None [env_backward_fails, env_exhausted] =
  ([StartRun 1000, GetUnalignedPairs 1000, RunFastAlign False,
   RunFastAlign True, LogError ''fast_align failed: boom'',
   LogError ''Backward alignment failed'', GetUnalignedPairs 1000,
   CompleteRun ''completed''],
  Returned \<lparr>batch_num = 2, total_aligned = 0, total_failed = 1\<rparr>)"
  by (simp add: eval_defs sample_defs score_defs)

lemma body_ok: "loop_body 1000 env_ok \<lparr>batch_num = 0, total_aligned = 0, total_failed = 0\<rparr> =
  ([GetUnalignedPairs 1000, RunFastAlign False, RunFastAlign True,
    InsertAlignment record_a, UpdateProgress 1 1 0],
   Continue \<lparr>batch_num = 1, total_aligned = 1, total_failed = 0\<rparr>)"
  by (simp add: eval_defs sample_defs score_defs)

subsection \<open>Progress updates\<close>

lemma body_backward_fails:
  "loop_body 1000 env_backward_fails \<lparr>batch_num = 0, total_aligned = 0, total_failed = 0\<rparr> =
     ([GetUnalignedPairs 1000, RunFastAlign False, RunFastAlign True,
       LogError ''fast_align failed: boom'', LogError ''Backward alignment failed''],
      Continue \<lparr>batch_num = 1, total_aligned = 0, total_failed = 1\<rparr>)"
  by (simp add: eval_defs sample_defs score_defs)

lemma body_ok_after_failure:
  "loop_body 1000 env_ok \<lparr>batch_num = 1, total_aligned = 0, total_failed = 1\<rparr> =
     ([GetUnalignedPairs 1000, RunFastAlign False, RunFastAlign True,
       InsertAlignment record_a, UpdateProgress 2 1 1],
      Continue \<lparr>batch_num = 2, total_aligned = 1, total_failed = 1\<rparr>)"
  by (simp add: eval_defs sample_defs score_defs)

theorem progress_update_after_stored_batch_witness:
  "loop_body 1000 env_ok \<lparr>batch_num = 0, total_aligned = 0, total_failed = 0\<rparr> =
     ([GetUnalignedPairs 1000, RunFastAlign False, RunFastAlign True,
       InsertAlignment record_a] @ [UpdateProgress 1 1 0],
      Continue \<lparr>batch_num = 1, total_aligned = 1, total_failed = 0\<rparr>)
   \<and> invocations_succeed env_ok
   \<and> store_alignments (insert_raises env_ok) (unaligned_pairs env_ok) [ [(0, 0)] ] [ [(0, 0)] ]
       = ([InsertAlignment record_a], 1, 0)
   \<and> \<not> list_ex is_update [GetUnalignedPairs 1000, RunFastAlign False, RunFastAlign True,
       InsertAlignment record_a]
   \<and> \<not> invocations_succeed env_backward_fails
   \<and> loop_body 1000 env_backward_fails \<lparr>batch_num = 0, total_aligned = 0, total_failed = 0\<rparr> =
       ([GetUnalignedPairs 1000, RunFastAlign False, RunFastAlign True,
         LogError ''fast_align failed: boom'', LogError ''Backward alignment failed''],
        Continue \<lparr>batch_num = 1, total_aligned = 0, total_failed = 1\<rparr>)
   \<and> length (unaligned_pairs env_backward_fails) = 1
   \<and> loop_body 1000 env_ok \<lparr>batch_num = 1, total_aligned = 0, total_failed = 1\<rparr> =
       ([GetUnalignedPairs 1000, RunFastAlign False, RunFastAlign True,
         InsertAlignment record_a] @ [UpdateProgress (0 + 1 + (0 + 1 + 0)) (0 + 1) (0 + 1 + 0)],
        Continue \<lparr>batch_num = 2, total_aligned = 1, total_failed = 1\<rparr>)"
proof -
  have ok: "invocations_succeed env_ok"
    by (simp add: invocations_succeed_def run_fast_align_def sample_defs)
  have nok: "\<not> invocations_succeed env_backward_fails"
    by (simp add: invocations_succeed_def run_fast_align_def sample_defs)
  have st: "store_alignments (insert_raises env_ok) (unaligned_pairs env_ok)
              [ [(0, 0)] ] [ [(0, 0)] ] = ([InsertAlignment record_a], 1, 0)"
    by (simp add: eval_defs sample_defs score_defs)
  have len: "length (unaligned_pairs env_backward_fails) = 1" by (simp add: sample_defs)
  note stored = progress_update_after_stored_batch[OF body_ok]
  note failed = progress_update_after_stored_batch[OF body_backward_fails]
  from failed nok ok body_ok_after_failure
  have "\<exists>evs0 p s f. [GetUnalignedPairs 1000, RunFastAlign False, RunFastAlign True,
            InsertAlignment record_a, UpdateProgress 2 1 1] = evs0 @ [UpdateProgress p s f]"
    by blast
  with stored ok nok st len body_ok body_backward_fails body_ok_after_failure
  show ?thesis by simp
qed

text \<open>
  Claim C5, refuted as stated: a run of one batch whose backward invocation fails, then an
  empty fetch. The run returns with one pair counted as failed and has made no progress
  update at all.
\<close>

theorem failed_batch_no_progress_update:
  "snd (run_pipeline 1000 None [env_backward_fails, env_exhausted])
     = Returned \<lparr>batch_num = 2, total_aligned = 0, total_failed = 1\<rparr>
   \<and> \<not> list_ex is_update (fst (run_pipeline 1000 None [env_backward_fails, env_exhausted]))"
  by (simp add: run_backward_fails)

subsection \<open>The whole run\<close>

lemma loop_body_no_complete:
  "loop_body bs env st = (evs, step) \<Longrightarrow> \<not> list_ex is_complete evs"
  using loop_body_shape[of bs env st evs step] quiet_no_kind by fastforce

lemma run_loop_no_complete: "\<not> list_ex is_complete (fst (run_loop bs mb world st))"
proof (induction world arbitrary: st)
  case Nil
  then show ?case by simp
next
  case (Cons env world)
  obtain evs step where b: "loop_body bs env st = (evs, step)"
    by (cases "loop_body bs env st") auto
  from loop_body_no_complete[OF b] Cons[of "case step of Continue s \<Rightarrow> s | _ \<Rightarrow> st"]
  show ?case
    using b by (cases step) (auto simp: case_prod_unfold Let_def)
qed

lemma run_loop_Pending_not_reached:
  "run_loop bs mb world st = (evs, Pending st') \<Longrightarrow> \<not> reached_max mb st'"
proof (induction world arbitrary: st evs)
  case Nil
  then show ?case by (auto split: if_splits)
next
  case (Cons env world)
  then show ?case
    by (auto simp: Let_def split: if_splits prod.splits step.splits)
qed

lemma run_loop_append:
  "run_loop bs mb before st = (evs0, Pending st') \<Longrightarrow>
   run_loop bs mb (before @ world) st =
     (evs0 @ fst (run_loop bs mb world st'), snd (run_loop bs mb world st'))"
proof (induction before arbitrary: st evs0)
  case Nil
  then show ?case by (cases world) (auto split: if_splits)
next
  case (Cons env before)
  then show ?case
    by (auto simp: Let_def split: if_splits prod.splits step.splits)
qed

text \<open>
  Claim C8. A run that leaves its batch loop is finalized with status \<open>completed\<close>, as
  its last action, whatever happened to its batches; no run ever reports another final
  status. A run whose first fetch is empty makes the fetch, completes, and returns with
  both counters at zero.
\<close>

theorem run_completes:
  "(\<forall>evs st. run_loop bs mb world \<lparr>batch_num = 0, total_aligned = 0, total_failed = 0\<rparr>
                = (evs, LoopExit st) \<longrightarrow>
       run_pipeline bs mb world = (StartRun bs # evs @ [CompleteRun ''completed''], Returned st)
       \<and> \<not> list_ex is_complete evs)
   \<and> (\<forall>evs st. run_pipeline bs mb world = (evs, Returned st) \<longrightarrow>
         evs \<noteq> [] \<and> last evs = CompleteRun ''completed'')
   \<and> (\<forall>status. CompleteRun status \<in> set (fst (run_pipeline bs mb world)) \<longrightarrow>
         status = ''completed'')
   \<and> (\<forall>env rest. world = env # rest \<and> unaligned_pairs env = []
         \<and> \<not> reached_max mb \<lparr>batch_num = 0, total_aligned = 0, total_failed = 0\<rparr> \<longrightarrow>
         run_pipeline bs mb world =
           ([StartRun bs, GetUnalignedPairs bs, CompleteRun ''completed''],
            Returned \<lparr>batch_num = 1, total_aligned = 0, total_failed = 0\<rparr>))"
proof -
  let ?init = "\<lparr>batch_num = 0, total_aligned = 0, total_failed = 0\<rparr>"
  obtain evs ex where r: "run_loop bs mb world ?init = (evs, ex)"
    by (cases "run_loop bs mb world ?init") auto
  have nc: "\<not> list_ex is_complete evs"
    using run_loop_no_complete[of bs mb world ?init] r by simp
  hence nc': "\<And>status. CompleteRun status \<notin> set evs"
    by (auto simp: list_ex_iff)
  have 1: "\<forall>evs st. run_loop bs mb world ?init = (evs, LoopExit st) \<longrightarrow>
       run_pipeline bs mb world = (StartRun bs # evs @ [CompleteRun ''completed''], Returned st)
       \<and> \<not> list_ex is_complete evs"
    using r nc by (auto simp: run_pipeline_def)
  have 2: "\<forall>evs st. run_pipeline bs mb world = (evs, Returned st) \<longrightarrow>
         evs \<noteq> [] \<and> last evs = CompleteRun ''completed''"
    using r by (cases ex) (auto simp: run_pipeline_def)
  have 3: "\<forall>status. CompleteRun status \<in> set (fst (run_pipeline bs mb world)) \<longrightarrow>
         status = ''completed''"
    using r nc' by (cases ex) (auto simp: run_pipeline_def)
  have 4: "\<forall>env rest. world = env # rest \<and> unaligned_pairs env = []
         \<and> \<not> reached_max mb ?init \<longrightarrow>
         run_pipeline bs mb world =
           ([StartRun bs, GetUnalignedPairs bs, CompleteRun ''completed''],
            Returned \<lparr>batch_num = 1, total_aligned = 0, total_failed = 0\<rparr>)"
    by (auto simp: run_pipeline_def loop_body_empty)
  from 1 2 3 4 show ?thesis by blast
qed

theorem run_completes_witness:
  "run_loop 1000 None [env_backward_fails, env_exhausted]
       \<lparr>batch_num = 0, total_aligned = 0, total_failed = 0\<rparr>
     = ([GetUnalignedPairs 1000, RunFastAlign False, RunFastAlign True,
         LogError ''fast_align failed: boom'', LogError ''Backward alignment failed'',
         GetUnalignedPairs 1000],
        LoopExit \<lparr>batch_num = 2, total_aligned = 0, total_failed = 1\<rparr>)
   \<and> run_pipeline 1000 None [env_backward_fails, env_exhausted] =
       ([StartRun 1000, GetUnalignedPairs 1000, RunFastAlign False, RunFastAlign True,
         LogError ''fast_align failed: boom'', LogError ''Backward alignment failed'',
         GetUnalignedPairs 1000, CompleteRun ''completed''],
        Returned \<lparr>batch_num = 2, total_aligned = 0, total_failed = 1\<rparr>)
   \<and> unaligned_pairs env_exhausted = []
   \<and> \<not> reached_max None \<lparr>batch_num = 0, total_aligned = 0, total_failed = 0\<rparr>
   \<and> run_pipeline 1000 None [env_exhausted] =
       ([StartRun 1000, GetUnalignedPairs 1000, CompleteRun ''completed''],
        Returned \<lparr>batch_num = 1, total_aligned = 0, total_failed = 0\<rparr>)"
proof -
  let ?init = "\<lparr>batch_num = 0, total_aligned = 0, total_failed = 0\<rparr>"
  have 1: "run_loop 1000 None [env_backward_fails, env_exhausted] ?init
     = ([GetUnalignedPairs 1000, RunFastAlign False, RunFastAlign True,
         LogError ''fast_align failed: boom'', LogError ''Backward alignment failed'',
         GetUnalignedPairs 1000],
        LoopExit \<lparr>batch_num = 2, total_aligned = 0, total_failed = 1\<rparr>)"
    by (simp add: eval_defs sample_defs)
  have 2: "unaligned_pairs env_exhausted = []" by (simp add: sample_defs)
  have 3: "\<not> reached_max None ?init" by (simp add: reached_max_def)
  from run_completes[of 1000 None "[env_backward_fails, env_exhausted]"] 1
  have a: "run_pipeline 1000 None [env_backward_fails, env_exhausted] =
       (StartRun 1000 # [GetUnalignedPairs 1000, RunFastAlign False, RunFastAlign True,
         LogError ''fast_align failed: boom'', LogError ''Backward alignment failed'',
         GetUnalignedPairs 1000] @ [CompleteRun ''completed''],
        Returned \<lparr>batch_num = 2, total_aligned = 0, total_failed = 1\<rparr>)"
    by blast
  from run_completes[of 1000 None "[env_exhausted]"] 2 3
  have b: "run_pipeline 1000 None [env_exhausted] =
       ([StartRun 1000, GetUnalignedPairs 1000, CompleteRun ''completed''],
        Returned \<lparr>batch_num = 1, total_aligned = 0, total_failed = 0\<rparr>)"
    by blast
  from 1 2 3 a b show ?thesis by simp
qed

text \<open>
  Claim C6, amended. An output with a malformed token (no separator, more than one, or a
  piece that is not a number) makes the parse raise ValueError, wherever the token
  stands: nothing is skipped. \<open>run_pipeline\<close> does not catch it. In a run that has got
  through the batches \<open>before\<close>, a batch whose two invocations succeed and one of whose
  outputs has a malformed token ends the run with that exception: the iteration inserts
  nothing and makes no progress update, no later batch is fetched, and the run is not
  completed.
\<close>

theorem malformed_output_aborts_run:
  assumes earlier: "run_loop bs mb before \<lparr>batch_num = 0, total_aligned = 0, total_failed = 0\<rparr>
                      = (evs0, Pending st)"
    and batch: "unaligned_pairs env \<noteq> []"
    and fwd: "snd (run_fast_align False (forward_proc env)) = Inr True"
    and bwd: "snd (run_fast_align True (backward_proc env)) = Inr True"
    and bad: "has_malformed_token (output_file_lines (forward_proc env))
            \<or> has_malformed_token (output_file_lines (backward_proc env))"
  shows "(\<forall>file_lines. has_malformed_token file_lines \<longrightarrow>
            parse_alignment_output file_lines = Inl ValueError)
       \<and> (\<exists>evs. quiet evs
            \<and> loop_body bs env st = (evs, Raise ValueError)
            \<and> run_pipeline bs mb (before @ env # world)
                = (StartRun bs # evs0 @ evs, Aborted ValueError))"
proof -
  let ?init = "\<lparr>batch_num = 0, total_aligned = 0, total_failed = 0\<rparr>"
  obtain ev1 where f1: "run_fast_align False (forward_proc env) = (ev1, Inr True)"
    using fwd by (cases "run_fast_align False (forward_proc env)") auto
  obtain ev2 where f2: "run_fast_align True (backward_proc env) = (ev2, Inr True)"
    using bwd by (cases "run_fast_align True (backward_proc env)") auto
  have q1: "quiet ev1" using run_fast_align_quiet[of False "forward_proc env"] f1 by simp
  have q2: "quiet ev2" using run_fast_align_quiet[of True "backward_proc env"] f2 by simp
  have body: "loop_body bs env st = (GetUnalignedPairs bs # ev1 @ ev2, Raise ValueError)"
  proof (cases "parse_alignment_output (output_file_lines (forward_proc env))")
    case (Inl e)
    have "e = ValueError" using parse_alignment_output_error[OF Inl] .
    with loop_body_forward_parse_raises[OF batch f1 f2 Inl] show ?thesis by simp
  next
    case (Inr fa)
    with bad malformed_output_raises
    have "parse_alignment_output (output_file_lines (backward_proc env)) = Inl ValueError"
      by fastforce
    from loop_body_backward_parse_raises[OF batch f1 f2 Inr this] show ?thesis .
  qed
  have nr: "\<not> reached_max mb st" using run_loop_Pending_not_reached[OF earlier] .
  have "run_loop bs mb (before @ env # world) ?init
          = (evs0 @ (GetUnalignedPairs bs # ev1 @ ev2), LoopRaised ValueError)"
    using run_loop_append[OF earlier, of "env # world"] run_loop_Cons_Raise[OF nr body, of world]
    by simp
  hence "run_pipeline bs mb (before @ env # world)
           = (StartRun bs # evs0 @ (GetUnalignedPairs bs # ev1 @ ev2), Aborted ValueError)"
    by (simp add: run_pipeline_def)
  moreover have "quiet (GetUnalignedPairs bs # ev1 @ ev2)" using q1 q2 by simp
  ultimately show ?thesis using body malformed_output_raises by blast
qed

theorem malformed_output_aborts_run_witness:
  "run_loop 1000 None [env_ok] \<lparr>batch_num = 0, total_aligned = 0, total_failed = 0\<rparr>
     = ([GetUnalignedPairs 1000, RunFastAlign False, RunFastAlign True,
         InsertAlignment record_a, UpdateProgress 1 1 0],
        Pending \<lparr>batch_num = 1, total_aligned = 1, total_failed = 0\<rparr>)
   \<and> unaligned_pairs env_malformed \<noteq> []
   \<and> snd (run_fast_align False (forward_proc env_malformed)) = Inr True
   \<and> snd (run_fast_align True (backward_proc env_malformed)) = Inr True
   \<and> has_malformed_token (output_file_lines (forward_proc env_malformed))
   \<and> parse_alignment_output (output_file_lines (forward_proc env_malformed)) = Inl ValueError
   \<and> run_pipeline 1000 None [env_ok, env_malformed, env_exhausted] =
       ([StartRun 1000, GetUnalignedPairs 1000, RunFastAlign False, RunFastAlign True,
         InsertAlignment record_a, UpdateProgress 1 1 0,
         GetUnalignedPairs 1000, RunFastAlign False, RunFastAlign True],
        Aborted ValueError)"
proof -
  let ?init = "\<lparr>batch_num = 0, total_aligned = 0, total_failed = 0\<rparr>"
  let ?st = "\<lparr>batch_num = 1, total_aligned = 1, total_failed = 0\<rparr>"
  let ?evs0 = "[GetUnalignedPairs 1000, RunFastAlign False, RunFastAlign True,
         InsertAlignment record_a, UpdateProgress 1 1 0]"
  have 1: "run_loop 1000 None [env_ok] ?init = (?evs0, Pending ?st)"
    by (simp add: body_ok reached_max_def)
  have 2: "unaligned_pairs env_malformed \<noteq> []" by (simp add: sample_defs)
  have 3: "snd (run_fast_align False (forward_proc env_malformed)) = Inr True"
    by (simp add: sample_defs run_fast_align_def)
  have 4: "snd (run_fast_align True (backward_proc env_malformed)) = Inr True"
    by (simp add: sample_defs run_fast_align_def)
  have 5: "has_malformed_token (output_file_lines (forward_proc env_malformed))"
    by (simp add: eval_defs sample_defs has_malformed_token_def malformed_token_def)
  from malformed_output_aborts_run[OF 1 2 3 4, of "[env_exhausted]"] 5
  obtain evs where e: "parse_alignment_output (output_file_lines (forward_proc env_malformed))
         = Inl ValueError"
    "loop_body 1000 env_malformed ?st = (evs, Raise ValueError)"
    "run_pipeline 1000 None ([env_ok] @ env_malformed # [env_exhausted])
       = (StartRun 1000 # ?evs0 @ evs, Aborted ValueError)"
    by blast
  from e(2) have "evs = [GetUnalignedPairs 1000, RunFastAlign False, RunFastAlign True]"
    by (simp add: eval_defs sample_defs)
  with e 1 2 3 4 5 show ?thesis by simp
qed

text \<open>
  Claim C6, refuted as stated: the forward output of the first batch is \<open>0-x\<close>. The run
  does not count the pair as failed and go on to the next batch; it ends with ValueError.
\<close>

theorem malformed_output_not_batch_failure:
  "run_pipeline 1000 None [env_malformed, env_exhausted] =
     ([StartRun 1000, GetUnalignedPairs 1000, RunFastAlign False, RunFastAlign True],
      Aborted ValueError)
   \<and> has_malformed_token (output_file_lines (forward_proc env_malformed))"
  by (simp add: eval_defs sample_defs score_defs has_malformed_token_def malformed_token_def)

subsection \<open>The tracker and the storage\<close>


lemma tracker_succeeded_append:
  "tracker_succeeded t (xs @ ys) = tracker_succeeded (tracker_succeeded t xs) ys"
  by (induction t xs rule: tracker_succeeded.induct) auto

lemma records_inserted_simps:
  "records_inserted [] = 0"
  "records_inserted (e # evs) = (if is_insert e then 1 else 0) + records_inserted evs"
  "records_inserted (xs @ ys) = records_inserted xs + records_inserted ys"
  by (auto simp: records_inserted_def)

lemma lagging_le: "lagging i t evs \<Longrightarrow> t \<le> i"
  by (induction i t evs rule: lagging.induct) auto

lemma lagging_append:
  "lagging i t (xs @ ys) \<longleftrightarrow>
     lagging i t xs \<and> lagging (i + records_inserted xs) (tracker_succeeded t xs) ys"
proof (induction i t xs rule: lagging.induct)
  case (1 i t)
  then show ?case using lagging_le[of i t ys] by (auto simp: records_inserted_simps)
qed (auto simp: records_inserted_simps add.assoc)

lemma lagging_no_update:
  "\<not> list_ex is_update evs \<Longrightarrow> t \<le> i \<Longrightarrow>
   lagging i t evs \<and> tracker_succeeded t evs = t"
proof (induction i t evs rule: lagging.induct)
  case (2 i t r evs)
  then show ?case by simp
qed auto

lemma lagging_prefix:
  "lagging i t evs \<Longrightarrow>
   tracker_succeeded t (take n evs) \<le> i + records_inserted (take n evs)"
proof (induction i t evs arbitrary: n rule: lagging.induct)
  case (1 i t)
  then show ?case by (simp add: records_inserted_simps)
next
  case (2 i t r evs)
  then show ?case
    by (cases n) (auto simp: records_inserted_simps add.assoc intro: order_trans)
next
  case (3 i t p s f evs)
  then show ?case
    by (cases n) (auto simp: records_inserted_simps)
qed (case_tac n; auto simp: records_inserted_simps)+

lemma lagging_update:
  "lagging i t evs \<Longrightarrow> n < length evs \<Longrightarrow> evs ! n = UpdateProgress p s f \<Longrightarrow>
   s = i + records_inserted (take n evs)"
proof (induction i t evs arbitrary: n rule: lagging.induct)
  case (1 i t)
  then show ?case by simp
next
  case (2 i t r evs)
  then show ?case
    by (cases n) (auto simp: records_inserted_simps add.assoc)
next
  case (3 i t p' s' f' evs)
  then show ?case
    by (cases n) (auto simp: records_inserted_simps)
qed (case_tac n; auto simp: records_inserted_simps)+

lemma quiet_lagging:
  "quiet evs \<Longrightarrow> t \<le> i \<Longrightarrow>
   lagging i t evs \<and> tracker_succeeded t evs = t \<and> records_inserted evs = 0"
proof (induction i t evs rule: lagging.induct)
  case (1 i t)
  then show ?case by (simp add: records_inserted_simps)
qed (auto simp: records_inserted_simps)

lemma loop_body_lagging:
  assumes b: "loop_body bs env st = (evs, step)" and t: "t \<le> total_aligned st"
  shows "lagging (total_aligned st) t evs
       \<and> (\<forall>st'. step = Continue st' \<longrightarrow>
             total_aligned st' = total_aligned st + records_inserted evs
             \<and> tracker_succeeded t evs \<le> total_aligned st')"
proof -
  from loop_body_shape[OF b] consider
    (q) "quiet evs" "\<forall>st'. step = Continue st' \<longrightarrow> total_aligned st' = total_aligned st"
  | (u) ev0 ev3 st' where
      "evs = ev0 @ ev3 @ [UpdateProgress (total_aligned st' + total_failed st')
                            (total_aligned st') (total_failed st')]"
      "quiet ev0" "\<not> list_ex is_update ev3" "step = Continue st'"
      "total_aligned st' = total_aligned st + records_inserted ev3"
    by blast
  then show ?thesis
  proof cases
    case q
    with quiet_lagging[OF q(1) t] t show ?thesis by auto
  next
    case u
    from quiet_lagging[OF u(2) t]
    have 0: "lagging (total_aligned st) t ev0" "tracker_succeeded t ev0 = t"
      "records_inserted ev0 = 0" by auto
    have ge: "0 \<le> records_inserted ev3" by (simp add: records_inserted_def)
    from lagging_no_update[OF u(3) t]
    have 3: "lagging (total_aligned st) t ev3" "tracker_succeeded t ev3 = t" by auto
    have "lagging (total_aligned st) t evs"
      using 0 3 u(5) t ge by (simp add: u(1) lagging_append)
    moreover have "records_inserted evs = records_inserted ev3"
      using 0 by (simp add: u(1) records_inserted_simps)
    moreover have "tracker_succeeded t evs = total_aligned st'"
      using 0 3 by (simp add: u(1) tracker_succeeded_append)
    ultimately show ?thesis using u(4,5) by auto
  qed
qed

lemma run_loop_lagging:
  "t \<le> total_aligned st \<Longrightarrow> lagging (total_aligned st) t (fst (run_loop bs mb world st))"
proof (induction world arbitrary: st t)
  case Nil
  then show ?case by simp
next
  case (Cons env world)
  show ?case
  proof (cases "reached_max mb st")
    case True
    with Cons.prems show ?thesis by simp
  next
    case nr: False
    obtain evs step where b: "loop_body bs env st = (evs, step)"
      by (cases "loop_body bs env st") auto
    note L = loop_body_lagging[OF b Cons.prems]
    show ?thesis
    proof (cases step)
      case (Continue st')
      with L have 1: "lagging (total_aligned st) t evs"
        and 2: "total_aligned st' = total_aligned st + records_inserted evs"
        and 3: "tracker_succeeded t evs \<le> total_aligned st'" by auto
      from Cons.IH[OF 3]
      have "lagging (total_aligned st + records_inserted evs) (tracker_succeeded t evs)
              (fst (run_loop bs mb world st'))"
        using 2 by simp
      with 1 show ?thesis
        using run_loop_Cons_Continue[OF nr b[unfolded Continue] ]
        by (simp add: lagging_append)
    next
      case (Break st')
      with L run_loop_Cons_Break[OF nr b[unfolded Break] ] show ?thesis by simp
    next
      case (Raise e)
      with L run_loop_Cons_Raise[OF nr b[unfolded Raise] ] show ?thesis by simp
    qed
  qed
qed

lemma run_pipeline_lagging: "lagging 0 0 (fst (run_pipeline bs mb world))"
proof -
  let ?init = "\<lparr>batch_num = 0, total_aligned = 0, total_failed = 0\<rparr>"
  obtain evs ex where r: "run_loop bs mb world ?init = (evs, ex)"
    by (cases "run_loop bs mb world ?init") auto
  have l: "lagging 0 0 evs" using run_loop_lagging[of 0 ?init bs mb world] r by simp
  have c: "lagging i t [CompleteRun ''completed''] = (t \<le> i)" for i t by simp
  have "lagging 0 0 (evs @ [CompleteRun ''completed''])"
    using l lagging_le[OF l] lagging_prefix[OF l, of "length evs"]
    by (simp add: lagging_append)
  with l r show ?thesis by (cases ex) (auto simp: run_pipeline_def)
qed

text \<open>
  Claim C9, amended. At every point of a run (after any number \<open>n\<close> of its events) the
  succeeded count recorded by the tracker is at most the number of records inserted so
  far, and every progress update records exactly that number. The tracker is brought up
  to date once for each stored batch, not with each insertion; what is incremented in
  the same step as each insertion is the counter \<open>successful\<close> of
  \<open>store_alignments\<close>, which is the number of records the call inserted.
\<close>

theorem tracker_lags_storage:
  "items_succeeded (take n (fst (run_pipeline bs mb world)))
     \<le> records_inserted (take n (fst (run_pipeline bs mb world)))
   \<and> (\<forall>p s f. n < length (fst (run_pipeline bs mb world))
         \<and> fst (run_pipeline bs mb world) ! n = UpdateProgress p s f \<longrightarrow>
         s = records_inserted (take n (fst (run_pipeline bs mb world))))
   \<and> (\<forall>ir sentence_pairs fwds bwds evs successful failed.
         store_alignments ir sentence_pairs fwds bwds = (evs, successful, failed) \<longrightarrow>
         successful = records_inserted evs)"
  using lagging_prefix[OF run_pipeline_lagging, of n bs mb world]
    lagging_update[OF run_pipeline_lagging, of n bs mb world]
    store_alignments_events
  by (auto simp: items_succeeded_def)

theorem tracker_lags_storage_witness:
  "5 < length (fst (run_pipeline 1000 None [env_ok, env_exhausted]))
   \<and> fst (run_pipeline 1000 None [env_ok, env_exhausted]) ! 5 = UpdateProgress 1 1 0
   \<and> 1 = records_inserted (take 5 (fst (run_pipeline 1000 None [env_ok, env_exhausted])))
   \<and> items_succeeded (take 6 (fst (run_pipeline 1000 None [env_ok, env_exhausted]))) = 1"
  using tracker_lags_storage[of 5 1000 None "[env_ok, env_exhausted]"]
  by (simp add: run_ok records_inserted_def items_succeeded_def)

text \<open>
  Claim C9, refuted as stated: in the run of one stored batch, after the first five
  events one record is inserted and the tracker still records zero.
\<close>

theorem insert_precedes_progress_update:
  "records_inserted (take 5 (fst (run_pipeline 1000 None [env_ok, env_exhausted]))) = 1
   \<and> items_succeeded (take 5 (fst (run_pipeline 1000 None [env_ok, env_exhausted]))) = 0
   \<and> \<not> records_inserted (take 5 (fst (run_pipeline 1000 None [env_ok, env_exhausted])))
         \<le> items_succeeded (take 5 (fst (run_pipeline 1000 None [env_ok, env_exhausted])))"
  by (simp add: run_ok records_inserted_def items_succeeded_def)

end
